theory Spec2Isabelle
  imports Complex_Main "HOL-Library.Word" "HOL-Library.AList"
begin

unbundle bit_operations_syntax

section \<open>Python values and exceptions\<close>

text \<open>
  The arguments of the query operations of \<^verbatim>\<open>pytmx/dc.py\<close> carry no type of their own in
  Python.  The values modelled here are the integers, the strings and \<^verbatim>\<open>None\<close>; the last
  two stand for the non-numeric arguments.
\<close>

datatype pyval = PyInt int | PyStr string | PyNone

text \<open>
  An exception is its class together with its message.  A message that the source builds
  with an f-string is kept as the template with the interpolated values.
\<close>

datatype exn_class =
    Exception | MasonException | ValueError | TypeError | IndexError | KeyError
  | AttributeError | NameError | AssertionError | StructError | LibraryError | OutOfFuel

datatype exn_msg =
    Compression_not_supported string
  | Encoding_not_supported string
  | Xml_tile_elements_not_supported
  | Must_be_non_negative pyval pyval pyval
  | Layer_not_found pyval
  | Tile_coordinates_invalid pyval pyval
  | Gids_must_be_number pyval
  | Gid_not_found pyval
  | Arg string
  | Msg string

datatype py_exn = Raise exn_class exn_msg

type_synonym 'a result = "py_exn + 'a"

definition bind_result :: "'a result \<Rightarrow> ('a \<Rightarrow> 'b result) \<Rightarrow> 'b result" where
  "bind_result r f = (case r of Inl e \<Rightarrow> Inl e | Inr v \<Rightarrow> f v)"

fun mapM :: "('a \<Rightarrow> 'b result) \<Rightarrow> 'a list \<Rightarrow> 'b list result" where
  "mapM f [] = Inr []"
| "mapM f (x # xs) =
     (case f x of Inl e \<Rightarrow> Inl e
      | Inr y \<Rightarrow> (case mapM f xs of Inl e \<Rightarrow> Inl e | Inr ys \<Rightarrow> Inr (y # ys)))"

text \<open>
  \<^verbatim>\<open>range(start, stop, step)\<close> as the list it enumerates.  A zero step raises
  \<^verbatim>\<open>ValueError\<close>; a negative step counts down.
\<close>

definition py_range :: "int \<Rightarrow> int \<Rightarrow> int \<Rightarrow> int list result" where
  "py_range start stop step =
     (if step = 0 then Inl (Raise ValueError (Msg ''range() arg 3 must not be zero''))
      else if 0 < step then
        Inr (map (\<lambda>k. start + int k * step) [0 ..< nat ((stop - start + step - 1) div step)])
      else
        Inr (map (\<lambda>k. start + int k * step) [0 ..< nat ((start - stop - step - 1) div (- step))]))"

text \<open>The slice \<^verbatim>\<open>xs[i : j]\<close> for indices that are not negative.\<close>

definition slice :: "'a list \<Rightarrow> int \<Rightarrow> int \<Rightarrow> 'a list" where
  "slice xs i j = take (nat j - nat i) (drop (nat i) xs)"

text \<open>\<^verbatim>\<open>s.split(sep)\<close> for a separator of one character.\<close>

fun split_on :: "char \<Rightarrow> string \<Rightarrow> string list" where
  "split_on sep [] = [[]]"
| "split_on sep (c # cs) =
     (case split_on sep cs of
        [] \<Rightarrow> [[c]]
      | w # ws \<Rightarrow> (if c = sep then [] # w # ws else (c # w) # ws))"

section \<open>Gid decoding, layer data and sprite sheets (\<^verbatim>\<open>pytmx/mason.py\<close>)\<close>

record tileflags =
  horizontal :: bool
  vertical :: bool
  diagonal :: bool

definition GID_TRANS_FLIPX :: int where "GID_TRANS_FLIPX = push_bit 31 1"
definition GID_TRANS_FLIPY :: int where "GID_TRANS_FLIPY = push_bit 30 1"
definition GID_TRANS_ROT :: int where "GID_TRANS_ROT = push_bit 29 1"

definition decode_gid :: "int \<Rightarrow> int \<times> tileflags" where
  "decode_gid raw_gid =
     (let flags = \<lparr> horizontal = (raw_gid AND GID_TRANS_FLIPX = GID_TRANS_FLIPX),
                     vertical = (raw_gid AND GID_TRANS_FLIPY = GID_TRANS_FLIPY),
                     diagonal = (raw_gid AND GID_TRANS_ROT = GID_TRANS_ROT) \<rparr>;
          gid = raw_gid AND NOT (GID_TRANS_FLIPX OR GID_TRANS_FLIPY OR GID_TRANS_ROT)
      in (gid, flags))"

text \<open>The three flag bits of a raw gid, as one mask.\<close>

definition flag_mask :: int where
  "flag_mask = GID_TRANS_FLIPX OR GID_TRANS_FLIPY OR GID_TRANS_ROT"

text \<open>
  The functions that \<^verbatim>\<open>unpack_gids\<close> takes from Python's library are parameters of the
  model: \<^verbatim>\<open>base64.b64decode\<close>, \<^verbatim>\<open>gzip.decompress\<close>, \<^verbatim>\<open>zlib.decompress\<close> and the
  conversion \<^verbatim>\<open>int\<close> of a string.  Each of them returns its value or raises.
\<close>

type_synonym byte = "8 word"

record pylib =
  b64decode :: "string option \<Rightarrow> byte list result"
  gzip_decompress :: "byte list \<Rightarrow> byte list result"
  zlib_decompress :: "byte list \<Rightarrow> byte list result"
  int_of_str :: "string \<Rightarrow> int result"

text \<open>
  \<^verbatim>\<open>struct.Struct("<L").unpack\<close>: four bytes, least significant first; any other length
  raises \<^verbatim>\<open>struct.error\<close>.
\<close>

fun unpack_u32le :: "byte list \<Rightarrow> int result" where
  "unpack_u32le [b0, b1, b2, b3] =
     Inr (uint b0 + 256 * uint b1 + 65536 * uint b2 + 16777216 * uint b3)"
| "unpack_u32le bs = Inl (Raise StructError (Msg ''unpack requires a buffer of 4 bytes''))"

definition truthy_str :: "string option \<Rightarrow> bool" where
  "truthy_str s = (case s of None \<Rightarrow> False | Some t \<Rightarrow> t \<noteq> [])"

text \<open>
  \<^verbatim>\<open>unpack_gids\<close>.  The value \<open>Inr None\<close> is the implicit \<^verbatim>\<open>return None\<close> at the end
  of the function body.
\<close>

definition unpack_gids ::
  "pylib \<Rightarrow> string option \<Rightarrow> string option \<Rightarrow> string option \<Rightarrow> int list option result" where
  "unpack_gids lib text encoding compression =
     (if encoding = Some ''base64'' then
        bind_result (b64decode lib text) (\<lambda>data.
        bind_result
          (if compression = Some ''gzip'' then gzip_decompress lib data
           else if compression = Some ''zlib'' then zlib_decompress lib data
           else if truthy_str compression then
             Inl (Raise Exception (Compression_not_supported (the compression)))
           else Inr data) (\<lambda>data.
        bind_result (py_range 0 (int (length data)) 4) (\<lambda>starts.
        bind_result (mapM unpack_u32le (map (\<lambda>i. slice data i (i + 4)) starts)) (\<lambda>gids.
        Inr (Some gids)))))
      else if encoding = Some ''csv'' then
        (case text of
           None \<Rightarrow> Inl (Raise AttributeError (Msg ''split''))
         | Some t \<Rightarrow> bind_result (mapM (int_of_str lib) (split_on CHR '','' t)) (\<lambda>gids.
                      Inr (Some gids)))
      else if truthy_str encoding then
        Inl (Raise Exception (Encoding_not_supported (the encoding)))
      else Inr None)"

text \<open>
  An operand of an integer operation: \<^verbatim>\<open>None\<close> in its place raises \<^verbatim>\<open>TypeError\<close>.
\<close>

definition need_int :: "int option \<Rightarrow> int result" where
  "need_int v = (case v of None \<Rightarrow> Inl (Raise TypeError (Msg ''NoneType where an integer is needed''))
                 | Some k \<Rightarrow> Inr k)"

text \<open>\<^verbatim>\<open>reshape_data\<close>; the width is an integer or \<^verbatim>\<open>None\<close>.\<close>

definition reshape_data :: "'a list \<Rightarrow> int option \<Rightarrow> 'a list list result" where
  "reshape_data gids width =
     bind_result (need_int width) (\<lambda>w.
     bind_result (py_range 0 (int (length gids)) w) (\<lambda>starts.
     Inr (map (\<lambda>i. slice gids i (i + w)) starts)))"

text \<open>
  \<^verbatim>\<open>iter_image_tiles\<close>: the product of the two ranges, as the list of pairs \<open>(y, x)\<close> in
  the order in which \<^verbatim>\<open>itertools.product\<close> yields them.  The sizes of the image and of
  a tile are integers or \<^verbatim>\<open>None\<close> (an attribute that is absent); margin and spacing
  are integers.
\<close>

definition iter_image_tiles ::
  "int option \<Rightarrow> int option \<Rightarrow> int option \<Rightarrow> int option \<Rightarrow> int \<Rightarrow> int
     \<Rightarrow> (int \<times> int) list result" where
  "iter_image_tiles width height tilewidth tileheight margin spacing =
     bind_result (need_int height) (\<lambda>h.
     bind_result (need_int tileheight) (\<lambda>th.
     bind_result (py_range margin (h + margin - th + 1) (th + spacing)) (\<lambda>ys.
     bind_result (need_int width) (\<lambda>w.
     bind_result (need_int tilewidth) (\<lambda>tw.
     bind_result (py_range margin (w + margin - tw + 1) (tw + spacing)) (\<lambda>xs.
     Inr (List.product ys xs)))))))"

section \<open>The viewer's input handling (\<^verbatim>\<open>apps/viewer.py\<close>)\<close>

text \<open>
  An event of the queue is a window-close event, a key press with its key code, a resize,
  or an event of any other type.
\<close>

datatype event = QUIT | KEYDOWN int | VIDEORESIZE | OtherEvent

definition K_ESCAPE :: int where "K_ESCAPE = 27"

record simple_test =
  running :: bool
  dirty :: bool

fun handle_event :: "simple_test \<Rightarrow> event \<Rightarrow> simple_test" where
  "handle_event s QUIT = s\<lparr>running := False\<rparr>"
| "handle_event s (KEYDOWN key) =
     (if key = K_ESCAPE then s\<lparr>running := False\<rparr> else s\<lparr>running := False\<rparr>)"
| "handle_event s VIDEORESIZE = s\<lparr>dirty := True\<rparr>"
| "handle_event s OtherEvent = s"

definition handle_input :: "simple_test \<Rightarrow> event list \<Rightarrow> simple_test" where
  "handle_input s queue = foldl handle_event s queue"

text \<open>
  The loop of \<^verbatim>\<open>run\<close>, over the queues that \<^verbatim>\<open>pygame.event.get()\<close> returns frame
  after frame.  The result is the state in which the loop stops and the queues it has not
  read; \<open>None\<close> when the loop is still running after the last queue given.
\<close>

fun run_loop :: "simple_test \<Rightarrow> event list list \<Rightarrow> (simple_test \<times> event list list) option" where
  "run_loop s frames =
     (if running s then
        (case frames of
           [] \<Rightarrow> None
         | queue # rest \<Rightarrow> run_loop (handle_input s queue) rest)
      else Some (s, frames))"

definition run :: "simple_test \<Rightarrow> event list list \<Rightarrow> (simple_test \<times> event list list) option" where
  "run s frames = run_loop (s\<lparr>dirty := True, running := True\<rparr>) frames"

declare run_loop.simps [simp del]

text \<open>The events on which the handler sets \<open>running\<close> to false.\<close>

definition stops_loop :: "event \<Rightarrow> bool" where
  "stops_loop e = (case e of QUIT \<Rightarrow> True | KEYDOWN key \<Rightarrow> True | _ \<Rightarrow> False)"

section \<open>The document model (\<^verbatim>\<open>pytmx/dc.py\<close>)\<close>

text \<open>
  One record for each dataclass.  A field that a builder of the parser fills with
  \<^verbatim>\<open>get(key)\<close> holds the attribute's string or \<^verbatim>\<open>None\<close>; one filled with
  \<^verbatim>\<open>get(key, int)\<close> holds an integer or \<^verbatim>\<open>None\<close>.  The type \<open>'f\<close> stands for
  Python's floats and \<open>'i\<close> for the image handles that the image loader returns.
  Field names carry a prefix, since the classes share names such as \<^verbatim>\<open>name\<close> and
  \<^verbatim>\<open>visible\<close>.  A property dictionary is an association list in insertion order.
  The field \<^verbatim>\<open>animation\<close> of a tile is assigned nowhere in the sources and is left out.
\<close>

type_synonym props = "(string \<times> string) list"

record point =
  pt_x :: "int option"
  pt_y :: "int option"

record text_shape =
  tx_fontfamily :: "string option"
  tx_pixelsize :: "string option"
  tx_wrap :: "string option"
  tx_color :: "string option"
  tx_bold :: "string option"
  tx_italic :: "string option"
  tx_underline :: "string option"
  tx_strikeout :: "string option"
  tx_kerning :: "string option"
  tx_halign :: "string option"
  tx_valign :: "string option"

record 'i tile =
  t_id :: "int option"
  t_gid :: "int option"
  t_type :: "string option"
  t_terrain :: "string option"
  t_image :: "'i option"
  t_properties :: "props option"

record image =
  im_source :: "string option"
  im_width :: "int option"
  im_height :: "int option"
  im_trans :: "string option"

text \<open>
  The \<^verbatim>\<open>data\<close> of a tile layer is, in turn: \<^verbatim>\<open>None\<close> or the string of a
  \<^verbatim>\<open>data\<close> attribute (from the builder), a flat list of raw gids (from the reducer of
  \<^verbatim>\<open>Layer.Data\<close>), and rows of tiles of the cache (from the reducer of the root map).
  A cell of a row is a tile or \<^verbatim>\<open>None\<close>, the cache's entry for gid 0.
\<close>

datatype 'c layer_data = NoData | RawAttr string | Flat "int list" | Grid "'c list list"

record ('f, 'i) tile_layer =
  tl_name :: "string option"
  tl_opacity :: 'f
  tl_visible :: bool
  tl_tintcolor :: "string option"
  tl_offsetx :: "string option"
  tl_offsety :: "string option"
  tl_data :: "'i tile option layer_data"
  tl_properties :: "props option"

record 'f polygon =
  pg_points :: "'f list list"

record polyline =
  pl_points :: "string option"

datatype 'f shape =
    Circle | PointShape point | PolygonShape "'f polygon" | PolylineShape polyline
  | TextShape text_shape

record ('f, 'i) object =
  o_name :: "string option"
  o_type :: "string option"
  o_x :: "'f option"
  o_y :: "'f option"
  o_width :: "'f option"
  o_height :: "'f option"
  o_rotation :: "'f option"
  o_gid :: int
  o_visible :: bool
  o_image :: "'i option"
  o_shapes :: "'f shape list"
  o_properties :: "props option"

record ('f, 'i) object_group =
  og_name :: "string option"
  og_color :: "string option"
  og_opacity :: 'f
  og_visible :: bool
  og_tintcolor :: "string option"
  og_offsetx :: "'f option"
  og_offsety :: "'f option"
  og_draworder :: "string option"
  og_objects :: "('f, 'i) object list"

text \<open>The parser appends tile layers and object groups to a group, nothing else.\<close>

datatype ('f, 'i) group_member =
    MemberLayer "('f, 'i) tile_layer" | MemberObjectgroup "('f, 'i) object_group"

record ('f, 'i) group =
  g_name :: "string option"
  g_opacity :: 'f
  g_visible :: bool
  g_tintcolor :: "string option"
  g_offsetx :: "string option"
  g_offsety :: "string option"
  g_layers :: "('f, 'i) group_member list"

record 'i tileset =
  ts_firstgid :: int
  ts_source :: "string option"
  ts_name :: "string option"
  ts_tilewidth :: "int option"
  ts_tileheight :: "int option"
  ts_spacing :: int
  ts_margin :: int
  ts_tilecount :: "string option"
  ts_columns :: "string option"
  ts_objectalignment :: "string option"
  ts_orientation :: "string option"
  ts_images :: "'i list"
  ts_tiles :: "'i tile list"
  ts_properties :: "props option"

record property =
  p_name :: string
  p_type :: "string option"
  p_value :: string

text \<open>
  The \<^verbatim>\<open>image\<close> of an image layer is the string of an \<^verbatim>\<open>image\<close> attribute (or
  \<^verbatim>\<open>None\<close>) until the reducer of \<^verbatim>\<open>Imagelayer.Image\<close> stores an image record.
\<close>

record image_layer =
  il_name :: "string option"
  il_visible :: "string option"
  il_image :: "(string + image) option"

datatype ('f, 'i) layer =
    TileLayer "('f, 'i) tile_layer"
  | ObjectGroup "('f, 'i) object_group"
  | Group "('f, 'i) group"
  | ImageLayer image_layer

record ('f, 'i) tmx_map =
  m_version :: "string option"
  m_tiledversion :: "string option"
  m_orientation :: "string option"
  m_renderorder :: "string option"
  m_compressionlevel :: "string option"
  m_width :: "int option"
  m_height :: "int option"
  m_tilewidth :: "int option"
  m_tileheight :: "int option"
  m_hexsidelength :: "int option"
  m_staggeraxis :: "int option"
  m_staggerindex :: "int option"
  m_background_color :: "string option"
  m_nextlayerid :: "string option"
  m_nextobjectid :: "string option"
  m_infinite :: "bool option"
  m_filename :: "string option"
  m_layers :: "('f, 'i) layer list"
  m_tilesets :: "'i tileset list"
  m_images :: "'i list"
  m_properties :: "props"

text \<open>\<^verbatim>\<open>Tile(gid=gid, image=image)\<close>: the other fields at their defaults.\<close>

definition new_tile :: "int \<Rightarrow> 'i \<Rightarrow> 'i tile" where
  "new_tile gid img =
     \<lparr> t_id = None, t_gid = Some gid, t_type = None, t_terrain = None, t_image = Some img,
       t_properties = None \<rparr>"

subsection \<open>Indexing\<close>




subsection \<open>Queries of the map\<close>








text \<open>The truth value of the attribute \<^verbatim>\<open>visible\<close> of a layer.\<close>

definition layer_visible :: "('f, 'i) layer \<Rightarrow> bool" where
  "layer_visible l =
     (case l of
        TileLayer lay \<Rightarrow> tl_visible lay
      | ObjectGroup og \<Rightarrow> og_visible og
      | Group g \<Rightarrow> g_visible g
      | ImageLayer il \<Rightarrow> truthy_str (il_visible il))"

text \<open>
  \<^verbatim>\<open>Map.visible_tile_layers\<close>, as the list of the indices it yields.  The condition is
  \<^verbatim>\<open>l.visible and isinstance(l, TiledTileLayer)\<close>, and the module \<^verbatim>\<open>dc\<close> neither defines
  nor imports the name \<^verbatim>\<open>TiledTileLayer\<close>: for the first layer whose \<^verbatim>\<open>visible\<close> is
  true the evaluation of the name raises \<^verbatim>\<open>NameError\<close>, and a layer whose
  \<^verbatim>\<open>visible\<close> is false is skipped before the name is looked up.
\<close>

fun visible_tile_layers_from :: "nat \<Rightarrow> ('f, 'i) layer list \<Rightarrow> nat list result" where
  "visible_tile_layers_from i [] = Inr []"
| "visible_tile_layers_from i (l # ls) =
     (if layer_visible l then Inl (Raise NameError (Arg ''TiledTileLayer''))
      else visible_tile_layers_from (Suc i) ls)"

definition visible_tile_layers :: "('f, 'i) tmx_map \<Rightarrow> nat list result" where
  "visible_tile_layers m = visible_tile_layers_from 0 (m_layers m)"

text \<open>
  \<^verbatim>\<open>Map.get_tile_locations_by_gid\<close>, as the list of the coordinates \<open>(x, y, layer)\<close> it
  yields.  For an index of \<^verbatim>\<open>visible_tile_layers\<close> the body calls the method
  \<^verbatim>\<open>iter_data\<close> of the layer, which no class of the module defines.
\<close>

fun locations_in_layers :: "nat list \<Rightarrow> (int \<times> int \<times> nat) list result" where
  "locations_in_layers [] = Inr []"
| "locations_in_layers (l # ls) = Inl (Raise AttributeError (Arg ''iter_data''))"

definition get_tile_locations_by_gid ::
  "('f, 'i) tmx_map \<Rightarrow> pyval \<Rightarrow> (int \<times> int \<times> nat) list result" where
  "get_tile_locations_by_gid m gid =
     bind_result (visible_tile_layers m) locations_in_layers"

section \<open>The parser (\<^verbatim>\<open>pytmx/mason.py\<close>)\<close>

subsection \<open>Strings\<close>

text \<open>
  \<^verbatim>\<open>s.split()\<close>: the maximal runs of characters that are not white space.
\<close>

definition is_space :: "char \<Rightarrow> bool" where
  "is_space c = ((of_char c :: nat) \<in> {9, 10, 11, 12, 13, 28, 29, 30, 31, 32})"

fun split_where :: "(char \<Rightarrow> bool) \<Rightarrow> string \<Rightarrow> string list" where
  "split_where p [] = [[]]"
| "split_where p (c # cs) =
     (case split_where p cs of
        [] \<Rightarrow> [[c]]
      | w # ws \<Rightarrow> (if p c then [] # w # ws else (c # w) # ws))"

definition split_ws :: "string \<Rightarrow> string list" where
  "split_ws s = filter (\<lambda>w. w \<noteq> []) (split_where is_space s)"

text \<open>
  \<^verbatim>\<open>s.title()\<close> on ASCII: a letter that follows a letter is made lower case, any other
  letter upper case.
\<close>

definition is_upper :: "char \<Rightarrow> bool" where
  "is_upper c = (65 \<le> (of_char c :: nat) \<and> (of_char c :: nat) \<le> 90)"

definition is_lower :: "char \<Rightarrow> bool" where
  "is_lower c = (97 \<le> (of_char c :: nat) \<and> (of_char c :: nat) \<le> 122)"

definition to_upper :: "char \<Rightarrow> char" where
  "to_upper c = (if is_lower c then char_of ((of_char c :: nat) - 32) else c)"

definition to_lower :: "char \<Rightarrow> char" where
  "to_lower c = (if is_upper c then char_of ((of_char c :: nat) + 32) else c)"

fun title_from :: "bool \<Rightarrow> string \<Rightarrow> string" where
  "title_from after_letter [] = []"
| "title_from after_letter (c # cs) =
     (if is_upper c \<or> is_lower c
      then (if after_letter then to_lower c else to_upper c) # title_from True cs
      else c # title_from False cs)"

definition title :: "string \<Rightarrow> string" where
  "title s = title_from False s"

subsection \<open>Floats, files and the environment\<close>

text \<open>
  Python's floats are a parameter: the conversion \<^verbatim>\<open>float\<close> of a string (which may
  raise), the subtraction, the truth value of a float (false for zero only), and the
  literal \<^verbatim>\<open>1.0\<close>.
\<close>

record 'f pyfloat =
  float_of_str :: "string \<Rightarrow> 'f result"
  float_sub :: "'f \<Rightarrow> 'f \<Rightarrow> 'f"
  float_truthy :: "'f \<Rightarrow> bool"
  float_one :: 'f

text \<open>
  An event of \<^verbatim>\<open>ElementTree.iterparse\<close> with the tag, the attributes and the text of
  its element, the text as the parser reads it at that event.
\<close>

type_synonym attrib = "(string \<times> string) list"

datatype xml_event =
    StartEvent string attrib "string option"
  | EndEvent string attrib "string option"

text \<open>
  The environment of a parse: the library, the floats, \<^verbatim>\<open>os.path.join\<close> and
  \<^verbatim>\<open>os.path.dirname\<close>, and \<^verbatim>\<open>iterparse\<close> as the list of the events of the file at a
  path (or the exception of a missing or malformed file).
\<close>

record 'f env =
  env_lib :: pylib
  env_flt :: "'f pyfloat"
  path_join :: "string \<Rightarrow> string \<Rightarrow> string"
  path_dirname :: "string \<Rightarrow> string"
  iterparse :: "string \<Rightarrow> xml_event list result"

subsection \<open>Objects under construction\<close>

record grid =
  gr_orientation :: "string option"
  gr_width :: "int option"
  gr_height :: "int option"

record data =
  d_encoding :: "string option"
  d_compression :: "string option"
  d_text :: "string option"

text \<open>The object of a token: an instance of one of the classes.\<close>

datatype ('f, 'i) obj =
    OData data
  | OCircle
  | OGrid grid
  | OGroup "('f, 'i) group"
  | OImage image
  | OImageLayer image_layer
  | OTileLayer "('f, 'i) tile_layer"
  | OMap "('f, 'i) tmx_map"
  | OObject "('f, 'i) object"
  | OObjectGroup "('f, 'i) object_group"
  | OPoint point
  | OPolygon "'f polygon"
  | OPolyline polyline
  | OProperties props
  | OProperty property
  | OTile "'i tile"
  | OText text_shape
  | OTileset "'i tileset"

text \<open>
  The image loader of the context.  The first call takes the path, the transparency key
  when it is passed (\<^verbatim>\<open>Tile.Image\<close> passes the path alone) and the keyword
  \<^verbatim>\<open>tileset\<close> when it is passed; it returns the function that takes a rectangle with
  flags, or no argument, and returns the image handle.  Either call may raise.
\<close>

type_synonym rect = "int \<times> int \<times> int \<times> int"

type_synonym ('f, 'i) image_loader =
  "string \<Rightarrow> string option option \<Rightarrow> ('f, 'i) obj option
     \<Rightarrow> ((rect \<times> tileflags) option \<Rightarrow> 'i result) result"

text \<open>
  \<^verbatim>\<open>Context\<close>.  Its field \<^verbatim>\<open>map\<close> is assigned nowhere and is left out.  The tile
  cache is a dictionary from gids to tiles, \<^verbatim>\<open>None\<close> for gid 0.
\<close>

record ('f, 'i) parse_context =
  ctx_path :: string
  ctx_folder :: string
  ctx_image_loader :: "('f, 'i) image_loader"
  ctx_invert_y :: bool
  ctx_tiles :: "(int \<times> 'i tile option) list"
  ctx_firstgid :: int

record ('f, 'i) token =
  tok_type :: string
  tok_attrib :: attrib
  tok_text :: "string option"
  tok_obj :: "('f, 'i) obj"

subsection \<open>Attribute access\<close>

text \<open>
  \<^verbatim>\<open>getdefault(d)\<close>: \<open>get\<close> is the access without a type, \<open>get_opt\<close> the access with a
  type and the default \<^verbatim>\<open>None\<close>, \<open>get_def\<close> the access with a type and a default.
  The conversion runs only when the key is present.  \<^verbatim>\<open>bool\<close> of a string is true for
  every string but the empty one.
\<close>

definition get :: "attrib \<Rightarrow> string \<Rightarrow> string option" where
  "get d key = map_of d key"

definition get_opt :: "(string \<Rightarrow> 'a result) \<Rightarrow> attrib \<Rightarrow> string \<Rightarrow> 'a option result" where
  "get_opt conv d key =
     (case map_of d key of
        None \<Rightarrow> Inr None
      | Some v \<Rightarrow> bind_result (conv v) (\<lambda>x. Inr (Some x)))"

definition get_def :: "(string \<Rightarrow> 'a result) \<Rightarrow> attrib \<Rightarrow> string \<Rightarrow> 'a \<Rightarrow> 'a result" where
  "get_def conv d key dflt =
     (case map_of d key of
        None \<Rightarrow> Inr dflt
      | Some v \<Rightarrow> conv v)"

definition bool_of_str :: "string \<Rightarrow> bool result" where
  "bool_of_str v = Inr (v \<noteq> [])"

subsection \<open>Builders\<close>

text \<open>
  \<^verbatim>\<open>start\<close> has one branch for each tag name; each branch is a definition here.  The
  arguments of a constructor are evaluated from left to right, so the first conversion
  that raises decides the exception.
\<close>

definition start_Data :: "attrib \<Rightarrow> string option \<Rightarrow> ('f, 'i) obj" where
  "start_Data d txt =
     OData \<lparr> d_encoding = get d ''encoding'', d_compression = get d ''compression'',
             d_text = txt \<rparr>"

definition start_Grid :: "'f env \<Rightarrow> attrib \<Rightarrow> ('f, 'i) obj result" where
  "start_Grid env d =
     bind_result (get_opt (int_of_str (env_lib env)) d ''width'') (\<lambda>w.
     bind_result (get_opt (int_of_str (env_lib env)) d ''height'') (\<lambda>h.
     Inr (OGrid \<lparr> gr_orientation = get d ''orientation'', gr_width = w, gr_height = h \<rparr>)))"

definition start_Group :: "'f env \<Rightarrow> attrib \<Rightarrow> ('f, 'i) obj result" where
  "start_Group env d =
     bind_result (get_def (float_of_str (env_flt env)) d ''opacity'' (float_one (env_flt env))) (\<lambda>opacity.
     bind_result (get_def bool_of_str d ''visible'' True) (\<lambda>visible.
     Inr (OGroup \<lparr> g_name = get d ''name'', g_opacity = opacity, g_visible = visible,
                    g_tintcolor = get d ''tintcolor'', g_offsetx = get d ''offsetx'',
                    g_offsety = get d ''offsety'', g_layers = [] \<rparr>)))"

definition start_Image :: "'f env \<Rightarrow> attrib \<Rightarrow> ('f, 'i) obj result" where
  "start_Image env d =
     bind_result (get_opt (int_of_str (env_lib env)) d ''width'') (\<lambda>w.
     bind_result (get_opt (int_of_str (env_lib env)) d ''height'') (\<lambda>h.
     Inr (OImage \<lparr> im_source = get d ''source'', im_width = w, im_height = h,
                    im_trans = get d ''trans'' \<rparr>)))"

definition start_Imagelayer :: "attrib \<Rightarrow> ('f, 'i) obj" where
  "start_Imagelayer d =
     OImageLayer \<lparr> il_name = get d ''name'', il_visible = get d ''visible'',
                   il_image = map_option Inl (get d ''image'') \<rparr>"

definition start_Layer :: "'f env \<Rightarrow> attrib \<Rightarrow> ('f, 'i) obj result" where
  "start_Layer env d =
     bind_result (get_def (float_of_str (env_flt env)) d ''opacity'' (float_one (env_flt env))) (\<lambda>opacity.
     bind_result (get_def bool_of_str d ''visible'' True) (\<lambda>visible.
     Inr (OTileLayer \<lparr> tl_name = get d ''name'', tl_opacity = opacity, tl_visible = visible,
                        tl_tintcolor = get d ''tintcolor'', tl_offsetx = get d ''offsetx'',
                        tl_offsety = get d ''offsety'',
                        tl_data = (case get d ''data'' of None \<Rightarrow> NoData | Some s \<Rightarrow> RawAttr s),
                        tl_properties = None \<rparr>)))"

definition start_Map :: "'f env \<Rightarrow> ('f, 'i) parse_context \<Rightarrow> attrib \<Rightarrow> ('f, 'i) obj result" where
  "start_Map env ctx d =
     bind_result (get_opt (int_of_str (env_lib env)) d ''width'') (\<lambda>width.
     bind_result (get_opt (int_of_str (env_lib env)) d ''height'') (\<lambda>height.
     bind_result (get_opt (int_of_str (env_lib env)) d ''tilewidth'') (\<lambda>tilewidth.
     bind_result (get_opt (int_of_str (env_lib env)) d ''tileheight'') (\<lambda>tileheight.
     bind_result (get_opt (int_of_str (env_lib env)) d ''hexsidelength'') (\<lambda>hexsidelength.
     bind_result (get_opt (int_of_str (env_lib env)) d ''staggeraxis'') (\<lambda>staggeraxis.
     bind_result (get_opt (int_of_str (env_lib env)) d ''staggerindex'') (\<lambda>staggerindex.
     bind_result (get_def bool_of_str d ''infinite'' False) (\<lambda>infinite.
     Inr (OMap \<lparr> m_version = get d ''version'', m_tiledversion = get d ''tiledversion'',
                  m_orientation = get d ''orientation'', m_renderorder = get d ''renderorder'',
                  m_compressionlevel = get d ''compressionlevel'', m_width = width,
                  m_height = height, m_tilewidth = tilewidth, m_tileheight = tileheight,
                  m_hexsidelength = hexsidelength, m_staggeraxis = staggeraxis,
                  m_staggerindex = staggerindex,
                  m_background_color = get d ''backgroundcolor'', m_nextlayerid = None,
                  m_nextobjectid = None, m_infinite = Some infinite,
                  m_filename = Some (ctx_path ctx), m_layers = [], m_tilesets = [],
                  m_images = [], m_properties = [] \<rparr>)))))))))"

text \<open>
  The builder of \<^verbatim>\<open>Object\<close>.  The condition \<^verbatim>\<open>ctx.invert_y and height\<close> is true when
  the flag is set and the height is a float other than zero; \<^verbatim>\<open>y -= height\<close> raises
  \<^verbatim>\<open>TypeError\<close> when \<^verbatim>\<open>y\<close> is \<^verbatim>\<open>None\<close>.
\<close>

definition start_Object :: "'f env \<Rightarrow> ('f, 'i) parse_context \<Rightarrow> attrib \<Rightarrow> ('f, 'i) obj result" where
  "start_Object env ctx d =
     bind_result (get_opt (float_of_str (env_flt env)) d ''y'') (\<lambda>y.
     bind_result (get_opt (float_of_str (env_flt env)) d ''height'') (\<lambda>height.
     bind_result
       (if ctx_invert_y ctx \<and> (case height of None \<Rightarrow> False | Some h \<Rightarrow> float_truthy (env_flt env) h)
        then (case y of
                None \<Rightarrow> Inl (Raise TypeError (Msg ''unsupported operand type(s) for -=''))
              | Some v \<Rightarrow> Inr (Some (float_sub (env_flt env) v (the height))))
        else Inr y) (\<lambda>y.
     bind_result (get_opt (float_of_str (env_flt env)) d ''x'') (\<lambda>x.
     bind_result (get_opt (float_of_str (env_flt env)) d ''width'') (\<lambda>width.
     bind_result (get_opt (float_of_str (env_flt env)) d ''rotation'') (\<lambda>rotation.
     bind_result (get_def (int_of_str (env_lib env)) d ''gid'' 0) (\<lambda>gid.
     bind_result (get_def bool_of_str d ''visible'' True) (\<lambda>visible.
     Inr (OObject \<lparr> o_name = get d ''name'', o_type = get d ''type'', o_x = x, o_y = y,
                     o_width = width, o_height = height, o_rotation = rotation, o_gid = gid,
                     o_visible = visible, o_image = None, o_shapes = [],
                     o_properties = None \<rparr>)))))))))"

definition start_Objectgroup :: "'f env \<Rightarrow> attrib \<Rightarrow> ('f, 'i) obj result" where
  "start_Objectgroup env d =
     bind_result (get_def (float_of_str (env_flt env)) d ''opacity'' (float_one (env_flt env))) (\<lambda>opacity.
     bind_result (get_def bool_of_str d ''visible'' True) (\<lambda>visible.
     bind_result (get_opt (float_of_str (env_flt env)) d ''offsetx'') (\<lambda>offsetx.
     bind_result (get_opt (float_of_str (env_flt env)) d ''offsety'') (\<lambda>offsety.
     Inr (OObjectGroup \<lparr> og_name = get d ''name'', og_color = get d ''color'',
                          og_opacity = opacity, og_visible = visible,
                          og_tintcolor = get d ''tintcolor'', og_offsetx = offsetx,
                          og_offsety = offsety, og_draworder = get d ''draworder'',
                          og_objects = [] \<rparr>)))))"

definition start_Point :: "'f env \<Rightarrow> attrib \<Rightarrow> ('f, 'i) obj result" where
  "start_Point env d =
     bind_result (get_opt (int_of_str (env_lib env)) d ''x'') (\<lambda>x.
     bind_result (get_opt (int_of_str (env_lib env)) d ''y'') (\<lambda>y.
     Inr (OPoint \<lparr> pt_x = x, pt_y = y \<rparr>)))"

definition start_Polygon :: "'f env \<Rightarrow> attrib \<Rightarrow> ('f, 'i) obj result" where
  "start_Polygon env d =
     (case get d ''points'' of
        None \<Rightarrow> Inl (Raise AttributeError (Arg ''split''))
      | Some t \<Rightarrow>
          bind_result
            (mapM (\<lambda>i. mapM (float_of_str (env_flt env)) (split_on CHR '','' i)) (split_ws t))
            (\<lambda>points. Inr (OPolygon \<lparr> pg_points = points \<rparr>)))"

definition start_Polyline :: "attrib \<Rightarrow> ('f, 'i) obj" where
  "start_Polyline d = OPolyline \<lparr> pl_points = get d ''points'' \<rparr>"

text \<open>\<^verbatim>\<open>attrib["name"]\<close> and \<^verbatim>\<open>attrib["value"]\<close> raise \<^verbatim>\<open>KeyError\<close> on a missing key.\<close>

definition start_Property :: "attrib \<Rightarrow> ('f, 'i) obj result" where
  "start_Property d =
     (case map_of d ''name'' of
        None \<Rightarrow> Inl (Raise KeyError (Arg ''name''))
      | Some n \<Rightarrow>
          (case map_of d ''value'' of
             None \<Rightarrow> Inl (Raise KeyError (Arg ''value''))
           | Some v \<Rightarrow> Inr (OProperty \<lparr> p_name = n, p_type = map_of d ''type'', p_value = v \<rparr>)))"

definition start_Tile :: "'f env \<Rightarrow> attrib \<Rightarrow> ('f, 'i) obj result" where
  "start_Tile env d =
     bind_result (get_opt (int_of_str (env_lib env)) d ''id'') (\<lambda>id.
     bind_result (get_opt (int_of_str (env_lib env)) d ''gid'') (\<lambda>gid.
     Inr (OTile \<lparr> t_id = id, t_gid = gid, t_type = get d ''type'', t_terrain = get d ''terrain'',
                   t_image = None, t_properties = None \<rparr>)))"

definition start_Text :: "attrib \<Rightarrow> ('f, 'i) obj" where
  "start_Text d =
     OText \<lparr> tx_fontfamily = get d ''fontfamily'', tx_pixelsize = get d ''pixelsize'',
             tx_wrap = get d ''wrap'', tx_color = get d ''color'', tx_bold = get d ''bold'',
             tx_italic = get d ''italic'', tx_underline = get d ''underline'',
             tx_strikeout = get d ''strikeout'', tx_kerning = get d ''kerning'',
             tx_halign = get d ''halign'', tx_valign = get d ''valign'' \<rparr>"

text \<open>
  The builder of \<^verbatim>\<open>Tileset\<close>.  A first gid other than zero becomes the pending first
  gid of the context.  With a non-empty \<^verbatim>\<open>source\<close> the object is the last one of the
  list that \<^verbatim>\<open>iter_tmx\<close> yields for the external file (\<open>rec\<close> stands for
  \<^verbatim>\<open>iter_tmx\<close>); an empty list has no last element.
\<close>

definition start_Tileset ::
  "'f env \<Rightarrow> (('f, 'i) parse_context \<Rightarrow> string \<Rightarrow> (('f, 'i) parse_context \<times> ('f, 'i) obj list) result)
     \<Rightarrow> ('f, 'i) parse_context \<Rightarrow> attrib
     \<Rightarrow> (('f, 'i) parse_context \<times> ('f, 'i) obj) result" where
  "start_Tileset env rec ctx d =
     (let source = get d ''source'' in
      bind_result (get_opt (int_of_str (env_lib env)) d ''firstgid'') (\<lambda>firstgid.
      let ctx = (case firstgid of
                   None \<Rightarrow> ctx
                 | Some g \<Rightarrow> if g \<noteq> 0 then ctx \<lparr> ctx_firstgid := g \<rparr> else ctx)
      in if truthy_str source then
           bind_result (rec ctx (path_join env (ctx_folder ctx) (the source))) (\<lambda>(ctx, objs).
             if objs = [] then Inl (Raise IndexError (Msg ''list index out of range''))
             else Inr (ctx, last objs))
         else
           bind_result (get_def (int_of_str (env_lib env)) d ''firstgid'' 0) (\<lambda>fg.
           bind_result (get_opt (int_of_str (env_lib env)) d ''tilewidth'') (\<lambda>tilewidth.
           bind_result (get_opt (int_of_str (env_lib env)) d ''tileheight'') (\<lambda>tileheight.
           bind_result (get_def (int_of_str (env_lib env)) d ''spacing'' 0) (\<lambda>spacing.
           bind_result (get_def (int_of_str (env_lib env)) d ''margin'' 0) (\<lambda>margin.
           Inr (ctx,
                OTileset \<lparr> ts_firstgid = fg, ts_source = get d ''source'',
                           ts_name = get d ''name'', ts_tilewidth = tilewidth,
                           ts_tileheight = tileheight, ts_spacing = spacing,
                           ts_margin = margin, ts_tilecount = get d ''tilecount'',
                           ts_columns = get d ''columns'',
                           ts_objectalignment = get d ''objectalignment'',
                           ts_orientation = None, ts_images = [], ts_tiles = [],
                           ts_properties = None \<rparr>))))))))"

text \<open>The dispatch of \<^verbatim>\<open>start\<close> on the tag name.  Only the builder of a tileset changes the context.\<close>

definition start ::
  "'f env \<Rightarrow> (('f, 'i) parse_context \<Rightarrow> string \<Rightarrow> (('f, 'i) parse_context \<times> ('f, 'i) obj list) result)
     \<Rightarrow> ('f, 'i) parse_context \<Rightarrow> string \<Rightarrow> attrib \<Rightarrow> string option
     \<Rightarrow> (('f, 'i) parse_context \<times> ('f, 'i) obj) result" where
  "start env rec ctx name d txt =
     (if name = ''Data'' then Inr (ctx, start_Data d txt)
      else if name = ''Ellipse'' then Inr (ctx, OCircle)
      else if name = ''Grid'' then bind_result (start_Grid env d) (\<lambda>ob. Inr (ctx, ob))
      else if name = ''Group'' then bind_result (start_Group env d) (\<lambda>ob. Inr (ctx, ob))
      else if name = ''Image'' then bind_result (start_Image env d) (\<lambda>ob. Inr (ctx, ob))
      else if name = ''Imagelayer'' then Inr (ctx, start_Imagelayer d)
      else if name = ''Layer'' then bind_result (start_Layer env d) (\<lambda>ob. Inr (ctx, ob))
      else if name = ''Map'' then bind_result (start_Map env ctx d) (\<lambda>ob. Inr (ctx, ob))
      else if name = ''Object'' then bind_result (start_Object env ctx d) (\<lambda>ob. Inr (ctx, ob))
      else if name = ''Objectgroup'' then bind_result (start_Objectgroup env d) (\<lambda>ob. Inr (ctx, ob))
      else if name = ''Point'' then bind_result (start_Point env d) (\<lambda>ob. Inr (ctx, ob))
      else if name = ''Polygon'' then bind_result (start_Polygon env d) (\<lambda>ob. Inr (ctx, ob))
      else if name = ''Polyline'' then Inr (ctx, start_Polyline d)
      else if name = ''Properties'' then Inr (ctx, OProperties [])
      else if name = ''Property'' then bind_result (start_Property d) (\<lambda>ob. Inr (ctx, ob))
      else if name = ''Tile'' then bind_result (start_Tile env d) (\<lambda>ob. Inr (ctx, ob))
      else if name = ''Text'' then Inr (ctx, start_Text d)
      else if name = ''Tileset'' then start_Tileset env rec ctx d
      else Inl (Raise ValueError (Arg name)))"

subsection \<open>Reducers\<close>

text \<open>
  An object of a class that a reducer does not expect.  A token's object is built by the
  builder of its tag, so the cases that end here do not arise in a parse; a token of a
  tileset can also hold the root object of an external file, a tileset or a map, and the
  reducers of \<^verbatim>\<open>Tileset\<close> and \<^verbatim>\<open>Map.Tileset\<close> treat both.
\<close>

definition other_class :: "'a result" where
  "other_class = Inl (Raise AttributeError (Msg ''object of another class''))"

text \<open>
  The loop of the reducer of \<^verbatim>\<open>Tileset.Image\<close>: the raw gids count up from the first
  gid of the tileset, one for each origin \<open>(y, x)\<close>, and each tile is stored in the cache
  under its gid without the flag bits.
\<close>

fun register_tiles ::
  "((rect \<times> tileflags) option \<Rightarrow> 'i result) \<Rightarrow> int \<Rightarrow> int \<Rightarrow> int \<Rightarrow> (int \<times> int) list
     \<Rightarrow> (int \<times> 'i tile option) list \<Rightarrow> (int \<times> 'i tile option) list result" where
  "register_tiles loader tw th raw_gid [] tiles = Inr tiles"
| "register_tiles loader tw th raw_gid ((y, x) # p) tiles =
     (let (gid, flags) = decode_gid raw_gid; rect = (x, y, tw, th) in
      bind_result (loader (Some (rect, flags))) (\<lambda>img.
      register_tiles loader tw th (raw_gid + 1) p
        (AList.update gid (Some (new_tile gid img)) tiles)))"

text \<open>
  The reducer of \<^verbatim>\<open>Tileset.Image\<close>.  The loader is bound before the origins are
  enumerated.  The tile sizes in the rectangles are integers: \<open>iter_image_tiles\<close> has
  raised otherwise.  A map in the place of the tileset has no \<^verbatim>\<open>margin\<close>.
\<close>

definition end_Tileset_Image ::
  "'f env \<Rightarrow> ('f, 'i) parse_context \<Rightarrow> ('f, 'i) obj \<Rightarrow> image
     \<Rightarrow> ('f, 'i) parse_context result" where
  "end_Tileset_Image env ctx parent child =
     (case im_source child of
        None \<Rightarrow> Inl (Raise TypeError (Msg ''expected str, bytes or os.PathLike object, not NoneType''))
      | Some source \<Rightarrow>
          bind_result (ctx_image_loader ctx (path_join env (ctx_folder ctx) source)
                         (Some (im_trans child)) (Some parent)) (\<lambda>loader.
          (case parent of
             OTileset ts \<Rightarrow>
               bind_result (iter_image_tiles (im_width child) (im_height child) (ts_tilewidth ts)
                              (ts_tileheight ts) (ts_margin ts) (ts_spacing ts)) (\<lambda>p.
               bind_result (register_tiles loader (the (ts_tilewidth ts)) (the (ts_tileheight ts))
                              (ts_firstgid ts) p (ctx_tiles ctx)) (\<lambda>tiles.
               Inr (ctx \<lparr> ctx_tiles := tiles \<rparr>)))
           | OMap m \<Rightarrow> Inl (Raise AttributeError (Arg ''margin''))
           | _ \<Rightarrow> other_class)))"

text \<open>
  The reducer of \<^verbatim>\<open>Tileset.Tile\<close>: a tileset whose first gid is zero takes the pending
  first gid of the context, and the tile is stored under the first gid plus its id.
\<close>

definition end_Tileset_Tile ::
  "('f, 'i) parse_context \<Rightarrow> 'i tileset \<Rightarrow> 'i tile
     \<Rightarrow> (('f, 'i) parse_context \<times> 'i tileset) result" where
  "end_Tileset_Tile ctx parent child =
     (let parent = (if ts_firstgid parent = 0 then parent \<lparr> ts_firstgid := ctx_firstgid ctx \<rparr>
                    else parent) in
      bind_result (need_int (t_id child)) (\<lambda>id.
      Inr (ctx \<lparr> ctx_tiles := AList.update (ts_firstgid parent + id) (Some child) (ctx_tiles ctx) \<rparr>,
           parent)))"

text \<open>
  The list \<^verbatim>\<open>[ctx.tiles[decode_gid(gid)[0]] for gid in tl.data]\<close>.  Iterating
  \<^verbatim>\<open>None\<close> raises; a character of a string and a row of a grid are no operands of
  \<^verbatim>\<open>&\<close>; a gid that the cache does not hold raises \<^verbatim>\<open>KeyError\<close>.
\<close>

definition lookup_tile :: "(int \<times> 'i tile option) list \<Rightarrow> int \<Rightarrow> 'i tile option result" where
  "lookup_tile tiles gid =
     (case map_of tiles (fst (decode_gid gid)) of
        None \<Rightarrow> Inl (Raise KeyError (Msg ''gid''))
      | Some t \<Rightarrow> Inr t)"

definition resolve_data ::
  "(int \<times> 'i tile option) list \<Rightarrow> 'i tile option layer_data \<Rightarrow> 'i tile option list result" where
  "resolve_data tiles dat =
     (case dat of
        NoData \<Rightarrow> Inl (Raise TypeError (Msg ''NoneType object is not iterable''))
      | RawAttr s \<Rightarrow>
          (if s = [] then Inr [] else Inl (Raise TypeError (Msg ''unsupported operand type(s) for &'')))
      | Flat gids \<Rightarrow> mapM (lookup_tile tiles) gids
      | Grid rows \<Rightarrow>
          (if rows = [] then Inr [] else Inl (Raise TypeError (Msg ''unsupported operand type(s) for &''))))"

text \<open>The loop of the reducer of the root map, over the layers of the map.\<close>

fun resolve_layers ::
  "(int \<times> 'i tile option) list \<Rightarrow> int option \<Rightarrow> ('f, 'i) layer list \<Rightarrow> ('f, 'i) layer list result" where
  "resolve_layers tiles width [] = Inr []"
| "resolve_layers tiles width (TileLayer lay # ls) =
     bind_result (resolve_data tiles (tl_data lay)) (\<lambda>dat.
     bind_result (reshape_data dat width) (\<lambda>rows.
     bind_result (resolve_layers tiles width ls) (\<lambda>ls'.
     Inr (TileLayer (lay \<lparr> tl_data := Grid rows \<rparr>) # ls'))))"
| "resolve_layers tiles width (l # ls) =
     bind_result (resolve_layers tiles width ls) (\<lambda>ls'. Inr (l # ls'))"

text \<open>
  \<^verbatim>\<open>end\<close>: the reducer for a path, given the object of the parent token (none at the
  root) and the object of the child token.  It returns the context and both objects as it
  leaves them.
\<close>

definition end_tag ::
  "'f env \<Rightarrow> ('f, 'i) parse_context \<Rightarrow> string \<Rightarrow> ('f, 'i) obj option \<Rightarrow> ('f, 'i) obj
     \<Rightarrow> (('f, 'i) parse_context \<times> ('f, 'i) obj option \<times> ('f, 'i) obj) result" where
  "end_tag env ctx path parent child =
     (if path = ''Data.Tile'' then
        Inl (Raise MasonException Xml_tile_elements_not_supported)
      else if path = ''Group.Layer'' then
        (case (parent, child) of
           (Some (OGroup g), OTileLayer c) \<Rightarrow>
             Inr (ctx, Some (OGroup (g \<lparr> g_layers := g_layers g @ [MemberLayer c] \<rparr>)), child)
         | _ \<Rightarrow> other_class)
      else if path = ''Group.Objectgroup'' then
        (case (parent, child) of
           (Some (OGroup g), OObjectGroup c) \<Rightarrow>
             Inr (ctx, Some (OGroup (g \<lparr> g_layers := g_layers g @ [MemberObjectgroup c] \<rparr>)), child)
         | _ \<Rightarrow> other_class)
      else if path = ''Imagelayer.Image'' then
        (case (parent, child) of
           (Some (OImageLayer il), OImage c) \<Rightarrow>
             Inr (ctx, Some (OImageLayer (il \<lparr> il_image := Some (Inr c) \<rparr>)), child)
         | _ \<Rightarrow> other_class)
      else if path = ''Layer.Data'' then
        (case (parent, child) of
           (Some (OTileLayer lay), OData c) \<Rightarrow>
             bind_result (unpack_gids (env_lib env) (d_text c) (d_encoding c) (d_compression c))
               (\<lambda>gids. Inr (ctx,
                   Some (OTileLayer (lay \<lparr> tl_data :=
                     (case gids of None \<Rightarrow> NoData | Some g \<Rightarrow> Flat g) \<rparr>)), child))
         | _ \<Rightarrow> other_class)
      else if path = ''Layer.Properties'' then
        (case (parent, child) of
           (Some (OTileLayer lay), OProperties c) \<Rightarrow>
             Inr (ctx, Some (OTileLayer (lay \<lparr> tl_properties := Some c \<rparr>)), child)
         | _ \<Rightarrow> other_class)
      else if path = ''Map'' then
        (case child of
           OMap m \<Rightarrow>
             bind_result (resolve_layers (ctx_tiles ctx) (m_width m) (m_layers m)) (\<lambda>ls.
             Inr (ctx, parent, OMap (m \<lparr> m_layers := ls \<rparr>)))
         | _ \<Rightarrow> other_class)
      else if path = ''Map.Group'' then
        (case (parent, child) of
           (Some (OMap m), OGroup c) \<Rightarrow>
             Inr (ctx, Some (OMap (m \<lparr> m_layers := m_layers m @ [Group c] \<rparr>)), child)
         | _ \<Rightarrow> other_class)
      else if path = ''Map.Imagelayer'' then
        (case (parent, child) of
           (Some (OMap m), OImageLayer c) \<Rightarrow>
             Inr (ctx, Some (OMap (m \<lparr> m_layers := m_layers m @ [ImageLayer c] \<rparr>)), child)
         | _ \<Rightarrow> other_class)
      else if path = ''Map.Layer'' then
        (case (parent, child) of
           (Some (OMap m), OTileLayer c) \<Rightarrow>
             Inr (ctx, Some (OMap (m \<lparr> m_layers := m_layers m @ [TileLayer c] \<rparr>)), child)
         | _ \<Rightarrow> other_class)
      else if path = ''Map.Objectgroup'' then
        (case (parent, child) of
           (Some (OMap m), OObjectGroup c) \<Rightarrow>
             Inr (ctx, Some (OMap (m \<lparr> m_layers := m_layers m @ [ObjectGroup c] \<rparr>)), child)
         | _ \<Rightarrow> other_class)
      else if path = ''Map.Properties'' then
        (case (parent, child) of
           (Some (OMap m), OProperties c) \<Rightarrow>
             Inr (ctx, Some (OMap (m \<lparr> m_properties := c \<rparr>)), child)
         | _ \<Rightarrow> other_class)
      else if path = ''Map.Tileset'' then
        (case (parent, child) of
           (Some (OMap m), OTileset c) \<Rightarrow>
             Inr (ctx, Some (OMap (m \<lparr> m_tilesets := m_tilesets m @ [c] \<rparr>)), child)
         | (Some (OMap m), _) \<Rightarrow> Inl (Raise AssertionError (Msg []))
         | _ \<Rightarrow> other_class)
      else if path = ''Object.Ellipse'' then
        (case (parent, child) of
           (Some (OObject ob), OCircle) \<Rightarrow>
             Inr (ctx, Some (OObject (ob \<lparr> o_shapes := o_shapes ob @ [Circle] \<rparr>)), child)
         | _ \<Rightarrow> other_class)
      else if path = ''Object.Point'' then
        (case (parent, child) of
           (Some (OObject ob), OPoint c) \<Rightarrow>
             Inr (ctx, Some (OObject (ob \<lparr> o_shapes := o_shapes ob @ [PointShape c] \<rparr>)), child)
         | _ \<Rightarrow> other_class)
      else if path = ''Object.Properties'' then
        (case (parent, child) of
           (Some (OObject ob), OProperties c) \<Rightarrow>
             Inr (ctx, Some (OObject (ob \<lparr> o_properties := Some c \<rparr>)), child)
         | _ \<Rightarrow> other_class)
      else if path = ''Object.Polygon'' then
        (case (parent, child) of
           (Some (OObject ob), OPolygon c) \<Rightarrow>
             Inr (ctx, Some (OObject (ob \<lparr> o_shapes := o_shapes ob @ [PolygonShape c] \<rparr>)), child)
         | _ \<Rightarrow> other_class)
      else if path = ''Object.Polyline'' then
        (case (parent, child) of
           (Some (OObject ob), OPolyline c) \<Rightarrow>
             Inr (ctx, Some (OObject (ob \<lparr> o_shapes := o_shapes ob @ [PolylineShape c] \<rparr>)), child)
         | _ \<Rightarrow> other_class)
      else if path = ''Objectgroup.Object'' then
        (case (parent, child) of
           (Some (OObjectGroup og), OObject c) \<Rightarrow>
             Inr (ctx, Some (OObjectGroup (og \<lparr> og_objects := og_objects og @ [c] \<rparr>)), child)
         | _ \<Rightarrow> other_class)
      else if path = ''Object.Text'' then
        (case (parent, child) of
           (Some (OObject ob), OText c) \<Rightarrow>
             Inr (ctx, Some (OObject (ob \<lparr> o_shapes := o_shapes ob @ [TextShape c] \<rparr>)), child)
         | _ \<Rightarrow> other_class)
      else if path = ''Properties.Property'' then
        (case (parent, child) of
           (Some (OProperties ps), OProperty c) \<Rightarrow>
             Inr (ctx, Some (OProperties (AList.update (p_name c) (p_value c) ps)), child)
         | _ \<Rightarrow> other_class)
      else if path = ''Tileset.Grid'' then
        (case (parent, child) of
           (Some (OTileset ts), OGrid c) \<Rightarrow>
             (if gr_orientation c = Some ''orthogonal''
              then Inr (ctx, Some (OTileset (ts \<lparr> ts_orientation := gr_orientation c \<rparr>)), child)
              else Inl (Raise AssertionError (Msg [])))
         | (Some (OMap m), OGrid c) \<Rightarrow>
             (if gr_orientation c = Some ''orthogonal''
              then Inr (ctx, Some (OMap (m \<lparr> m_orientation := gr_orientation c \<rparr>)), child)
              else Inl (Raise AssertionError (Msg [])))
         | _ \<Rightarrow> other_class)
      else if path = ''Tileset.Image'' then
        (case (parent, child) of
           (Some p, OImage c) \<Rightarrow>
             bind_result (end_Tileset_Image env ctx p c) (\<lambda>ctx'. Inr (ctx', parent, child))
         | _ \<Rightarrow> other_class)
      else if path = ''Tileset.Properties'' then
        (case (parent, child) of
           (Some (OTileset ts), OProperties c) \<Rightarrow>
             Inr (ctx, Some (OTileset (ts \<lparr> ts_properties := Some c \<rparr>)), child)
         | (Some (OMap m), OProperties c) \<Rightarrow>
             Inr (ctx, Some (OMap (m \<lparr> m_properties := c \<rparr>)), child)
         | _ \<Rightarrow> other_class)
      else if path = ''Tile.Properties'' then
        (case (parent, child) of
           (Some (OTile t), OProperties c) \<Rightarrow>
             Inr (ctx, Some (OTile (t \<lparr> t_properties := Some c \<rparr>)), child)
         | _ \<Rightarrow> other_class)
      else if path = ''Tile.Image'' then
        (case (parent, child) of
           (Some (OTile t), OImage c) \<Rightarrow>
             (case im_source c of
                None \<Rightarrow> Inl (Raise TypeError (Msg ''expected str, bytes or os.PathLike object, not NoneType''))
              | Some source \<Rightarrow>
                  bind_result (ctx_image_loader ctx (path_join env (ctx_folder ctx) source) None None)
                    (\<lambda>loader.
                  bind_result (loader None) (\<lambda>img.
                  Inr (ctx, Some (OTile (t \<lparr> t_image := Some img \<rparr>)), child))))
         | _ \<Rightarrow> other_class)
      else if path = ''Tileset'' then Inr (ctx, parent, child)
      else if path = ''Tileset.Tile'' then
        (case (parent, child) of
           (Some (OTileset ts), OTile c) \<Rightarrow>
             bind_result (end_Tileset_Tile ctx ts c) (\<lambda>(ctx', ts').
             Inr (ctx', Some (OTileset ts'), child))
         | (Some (OMap m), OTile c) \<Rightarrow> Inl (Raise AttributeError (Arg ''firstgid''))
         | _ \<Rightarrow> other_class)
      else Inl (Raise ValueError (Arg path)))"

subsection \<open>The event loop\<close>

text \<open>
  The loop of \<^verbatim>\<open>iter_tmx\<close> over the events of one file.  The stack has its top at the
  head; \<open>ys\<close> are the objects yielded so far.  \<^verbatim>\<open>stack.pop()\<close> on an empty stack
  raises \<^verbatim>\<open>IndexError\<close>.
\<close>

fun run_events ::
  "'f env \<Rightarrow> (('f, 'i) parse_context \<Rightarrow> string \<Rightarrow> (('f, 'i) parse_context \<times> ('f, 'i) obj list) result)
     \<Rightarrow> ('f, 'i) parse_context \<Rightarrow> ('f, 'i) token list \<Rightarrow> ('f, 'i) obj list \<Rightarrow> xml_event list
     \<Rightarrow> (('f, 'i) parse_context \<times> ('f, 'i) obj list) result" where
  "run_events env rec ctx stack ys [] = Inr (ctx, ys)"
| "run_events env rec ctx stack ys (StartEvent tag d txt # events) =
     bind_result (start env rec ctx (title tag) d txt) (\<lambda>(ctx', ob).
     run_events env rec ctx'
       (\<lparr> tok_type = title tag, tok_attrib = d, tok_text = txt, tok_obj = ob \<rparr> # stack) ys events)"
| "run_events env rec ctx stack ys (EndEvent tag d txt # events) =
     (case stack of
        [] \<Rightarrow> Inl (Raise IndexError (Msg ''pop from empty list''))
      | t # [] \<Rightarrow>
          bind_result (end_tag env ctx (tok_type t) None (tok_obj t)) (\<lambda>(ctx', parent', child').
          run_events env rec ctx' [] (ys @ [child']) events)
      | t # p # rest \<Rightarrow>
          bind_result (end_tag env ctx (tok_type p @ ''.'' @ tok_type t) (Some (tok_obj p)) (tok_obj t))
            (\<lambda>(ctx', parent', child').
          run_events env rec ctx'
            (p \<lparr> tok_obj := (case parent' of None \<Rightarrow> tok_obj p | Some ob \<Rightarrow> ob) \<rparr> # rest)
            (ys @ [child']) events))"

text \<open>
  \<^verbatim>\<open>iter_tmx\<close>, as the list of the objects it yields.  The first argument bounds the
  nesting of external files: a tileset file may name itself as its source, and the source
  has no guard against that.  \<open>OutOfFuel\<close> is no exception of Python; it says that the
  bound is used up.
\<close>

definition out_of_fuel :: "'a result" where
  "out_of_fuel = Inl (Raise OutOfFuel (Msg []))"

primrec iter_tmx ::
  "nat \<Rightarrow> 'f env \<Rightarrow> ('f, 'i) parse_context \<Rightarrow> string
     \<Rightarrow> (('f, 'i) parse_context \<times> ('f, 'i) obj list) result" where
  "iter_tmx 0 env ctx path = out_of_fuel"
| "iter_tmx (Suc n) env ctx path =
     bind_result (iterparse env path) (\<lambda>events.
     run_events env (iter_tmx n env) ctx [] [] events)"

text \<open>\<^verbatim>\<open>load_tmx\<close>: the last object of the list, the root.\<close>

definition load_tmx ::
  "nat \<Rightarrow> 'f env \<Rightarrow> string \<Rightarrow> ('f, 'i) image_loader \<Rightarrow> ('f, 'i) obj result" where
  "load_tmx n env path image_loader =
     (let ctx = \<lparr> ctx_path = path, ctx_folder = path_dirname env path,
                  ctx_image_loader = image_loader, ctx_invert_y = True,
                  ctx_tiles = [(0, None)], ctx_firstgid = 0 \<rparr> in
      bind_result (iter_tmx n env ctx path) (\<lambda>(ctx', objs).
        if objs = [] then Inl (Raise IndexError (Msg ''list index out of range''))
        else Inr (last objs)))"

text \<open>
  \<^verbatim>\<open>default_image_loader\<close>: the handle is the path with the rectangle and the flags.
  The parameter \<^verbatim>\<open>flags\<close> of the first call has no default, so the call with the path
  alone raises \<^verbatim>\<open>TypeError\<close>.
\<close>

definition default_image_loader ::
  "('f, string \<times> rect option \<times> tileflags option) image_loader" where
  "default_image_loader filename flags tileset =
     (case flags of
        None \<Rightarrow> Inl (Raise TypeError (Msg ''missing 1 required positional argument: flags''))
      | Some f \<Rightarrow> Inr (\<lambda>a. Inr (filename, map_option fst a, map_option snd a)))"

subsection \<open>Documents\<close>

text \<open>
  An XML element with its tag, attributes, text and children, and the events that
  \<^verbatim>\<open>iterparse\<close> reports for it: its start, the events of its children in order, its end.
\<close>

datatype xml = Element string attrib "string option" "xml list"

fun events_of :: "xml \<Rightarrow> xml_event list" where
  "events_of (Element tag d txt cs) =
     StartEvent tag d txt # concat (map events_of cs) @ [EndEvent tag d txt]"

fun xml_tag :: "xml \<Rightarrow> string" where
  "xml_tag (Element tag d txt cs) = tag"

text \<open>
  The event loop on the events of one element, written as a recursion over the element.
  \<open>parse_child\<close> runs an element below a parent token with the type \<open>ptype\<close> and the
  object \<open>pobj\<close>: the builder, the children, the reducer; it returns the context, the
  parent's object and the objects yielded.  \<open>parse_root\<close> runs the root element, on the
  empty stack.  The lemmas \<open>run_events_child\<close> and \<open>run_events_root\<close> below show that
  the loop computes these functions.
\<close>

fun parse_child ::
  "'f env \<Rightarrow> (('f, 'i) parse_context \<Rightarrow> string \<Rightarrow> (('f, 'i) parse_context \<times> ('f, 'i) obj list) result)
     \<Rightarrow> ('f, 'i) parse_context \<Rightarrow> string \<Rightarrow> ('f, 'i) obj \<Rightarrow> ('f, 'i) obj list \<Rightarrow> xml
     \<Rightarrow> (('f, 'i) parse_context \<times> ('f, 'i) obj \<times> ('f, 'i) obj list) result"
and parse_children ::
  "'f env \<Rightarrow> (('f, 'i) parse_context \<Rightarrow> string \<Rightarrow> (('f, 'i) parse_context \<times> ('f, 'i) obj list) result)
     \<Rightarrow> ('f, 'i) parse_context \<Rightarrow> string \<Rightarrow> ('f, 'i) obj \<Rightarrow> ('f, 'i) obj list \<Rightarrow> xml list
     \<Rightarrow> (('f, 'i) parse_context \<times> ('f, 'i) obj \<times> ('f, 'i) obj list) result" where
  "parse_child env rec ctx ptype pobj ys (Element tag d txt cs) =
     bind_result (start env rec ctx (title tag) d txt) (\<lambda>(ctx1, ob).
     bind_result (parse_children env rec ctx1 (title tag) ob ys cs) (\<lambda>(ctx2, ob2, ys2).
     bind_result (end_tag env ctx2 (ptype @ ''.'' @ title tag) (Some pobj) ob2)
       (\<lambda>(ctx3, parent', child').
     Inr (ctx3, (case parent' of None \<Rightarrow> pobj | Some ob' \<Rightarrow> ob'), ys2 @ [child']))))"
| "parse_children env rec ctx ptype pobj ys [] = Inr (ctx, pobj, ys)"
| "parse_children env rec ctx ptype pobj ys (c # cs) =
     bind_result (parse_child env rec ctx ptype pobj ys c) (\<lambda>(ctx', pobj', ys').
     parse_children env rec ctx' ptype pobj' ys' cs)"

definition parse_root ::
  "'f env \<Rightarrow> (('f, 'i) parse_context \<Rightarrow> string \<Rightarrow> (('f, 'i) parse_context \<times> ('f, 'i) obj list) result)
     \<Rightarrow> ('f, 'i) parse_context \<Rightarrow> ('f, 'i) obj list \<Rightarrow> xml
     \<Rightarrow> (('f, 'i) parse_context \<times> ('f, 'i) obj list) result" where
  "parse_root env rec ctx ys t =
     (case t of Element tag d txt cs \<Rightarrow>
        bind_result (start env rec ctx (title tag) d txt) (\<lambda>(ctx1, ob).
        bind_result (parse_children env rec ctx1 (title tag) ob ys cs) (\<lambda>(ctx2, ob2, ys2).
        bind_result (end_tag env ctx2 (title tag) None ob2) (\<lambda>(ctx3, parent', child').
        Inr (ctx3, ys2 @ [child'])))))"

subsection \<open>Paths, contexts and objects in the proofs\<close>

text \<open>The paths for which \<^verbatim>\<open>end\<close> has a reducer that can return.\<close>

definition accepted_paths :: "string list" where
  "accepted_paths =
     [''Group.Layer'', ''Group.Objectgroup'', ''Imagelayer.Image'', ''Layer.Data'',
      ''Layer.Properties'', ''Map'', ''Map.Group'', ''Map.Imagelayer'', ''Map.Layer'',
      ''Map.Objectgroup'', ''Map.Properties'', ''Map.Tileset'', ''Object.Ellipse'',
      ''Object.Point'', ''Object.Properties'', ''Object.Polygon'', ''Object.Polyline'',
      ''Objectgroup.Object'', ''Object.Text'', ''Properties.Property'', ''Tileset.Grid'',
      ''Tileset.Image'', ''Tileset.Properties'', ''Tile.Properties'', ''Tile.Image'',
      ''Tileset'', ''Tileset.Tile'']"

text \<open>Two contexts that differ in the tile cache at most.\<close>

definition same_but_tiles :: "('f, 'i) parse_context \<Rightarrow> ('f, 'i) parse_context \<Rightarrow> bool" where
  "same_but_tiles ctx ctx' =
     (ctx_path ctx' = ctx_path ctx \<and> ctx_folder ctx' = ctx_folder ctx
      \<and> ctx_image_loader ctx' = ctx_image_loader ctx \<and> ctx_invert_y ctx' = ctx_invert_y ctx
      \<and> ctx_firstgid ctx' = ctx_firstgid ctx)"

text \<open>
  Two objects that are equal, but for the image of a tile and for the first gid of a
  tileset.
\<close>

definition similar :: "('f, 'i) obj \<Rightarrow> ('f, 'i) obj \<Rightarrow> bool" where
  "similar a b =
     (case a of
        OTile ta \<Rightarrow> (case b of OTile tb \<Rightarrow> ta \<lparr> t_image := None \<rparr> = tb \<lparr> t_image := None \<rparr>
                     | _ \<Rightarrow> False)
      | OTileset sa \<Rightarrow> (case b of OTileset sb \<Rightarrow> sa \<lparr> ts_firstgid := 0 \<rparr> = sb \<lparr> ts_firstgid := 0 \<rparr>
                        | _ \<Rightarrow> False)
      | _ \<Rightarrow> a = b)"

text \<open>The types of the tokens that occur in a tileset document.\<close>

definition below_tileset :: "string \<Rightarrow> bool" where
  "below_tileset ptype =
     (ptype \<in> {''Tileset'', ''Tile'', ''Properties'', ''Grid'', ''Image'', ''Property''})"

section \<open>Values for concrete evaluation\<close>

text \<open>
  \<^verbatim>\<open>Map()\<close>: every field of the dataclass at its default.
\<close>

definition default_map :: "('f, 'i) tmx_map" where
  "default_map =
     \<lparr> m_version = None, m_tiledversion = None, m_orientation = None, m_renderorder = None,
       m_compressionlevel = None, m_width = None, m_height = None, m_tilewidth = None,
       m_tileheight = None, m_hexsidelength = None, m_staggeraxis = None,
       m_staggerindex = None, m_background_color = None, m_nextlayerid = None,
       m_nextobjectid = None, m_infinite = None, m_filename = None, m_layers = [],
       m_tilesets = [], m_images = [], m_properties = [] \<rparr>"

text \<open>
  A grid of four rows of four tiles with the gids 1 to 16, a tile layer holding such a
  grid, an object group, and maps built from them.  Floats are reals and image handles are
  strings in these values.
\<close>

definition sample_rows :: "string tile option list list" where
  "sample_rows =
     map (\<lambda>r. map (\<lambda>c. Some (new_tile (4 * r + c + 1) ''tiles.png'')) [0, 1, 2, 3]) [0, 1, 2, 3]"

definition sample_layer :: "bool \<Rightarrow> string tile option list list \<Rightarrow> (real, string) tile_layer" where
  "sample_layer vis rows =
     \<lparr> tl_name = Some ''ground'', tl_opacity = 1, tl_visible = vis, tl_tintcolor = None,
       tl_offsetx = None, tl_offsety = None, tl_data = Grid rows, tl_properties = None \<rparr>"


definition sample_map :: "(real, string) layer list \<Rightarrow> (real, string) tmx_map" where
  "sample_map ls = default_map \<lparr> m_width := Some 4, m_height := Some 4, m_layers := ls \<rparr>"



text \<open>
  An instance of the library parameters: it decodes the empty text to no bytes, reads an
  unsigned decimal numeral as its integer, and raises on every other call.
\<close>

definition digit_val :: "char \<Rightarrow> nat option" where
  "digit_val c =
     (let n = (of_char c :: nat) in if 48 \<le> n \<and> n \<le> 57 then Some (n - 48) else None)"

fun read_digits :: "nat \<Rightarrow> string \<Rightarrow> nat option" where
  "read_digits acc [] = Some acc"
| "read_digits acc (c # cs) =
     (case digit_val c of None \<Rightarrow> None | Some d \<Rightarrow> read_digits (10 * acc + d) cs)"

definition sample_lib :: pylib where
  "sample_lib =
     \<lparr> b64decode = (\<lambda>t. case t of
          None \<Rightarrow> Inl (Raise TypeError (Msg ''argument should be a bytes-like object or ASCII string''))
        | Some s \<Rightarrow> if s = [] then Inr [] else Inl (Raise LibraryError (Msg ''binascii.Error''))),
       gzip_decompress = (\<lambda>d. Inl (Raise LibraryError (Msg ''gzip.BadGzipFile''))),
       zlib_decompress = (\<lambda>d. Inl (Raise LibraryError (Msg ''zlib.error''))),
       int_of_str = (\<lambda>s. case (if s = [] then None else read_digits 0 s) of
          None \<Rightarrow> Inl (Raise ValueError (Msg ''invalid literal for int() with base 10''))
        | Some n \<Rightarrow> Inr (int n)) \<rparr>"

text \<open>
  An instance of the floats (reals, read from unsigned decimal numerals), an environment
  over a given table of files, a table with no file, and a context as \<^verbatim>\<open>load_tmx\<close>
  sets it up for \<^verbatim>\<open>map.tmx\<close> with the default image loader.
\<close>

definition sample_float :: "real pyfloat" where
  "sample_float =
     \<lparr> float_of_str = (\<lambda>s. case (if s = [] then None else read_digits 0 s) of
          None \<Rightarrow> Inl (Raise ValueError (Msg ''could not convert string to float''))
        | Some n \<Rightarrow> Inr (real n)),
       float_sub = (\<lambda>a b. a - b),
       float_truthy = (\<lambda>a. a \<noteq> 0),
       float_one = 1 \<rparr>"

definition sample_env :: "(string \<Rightarrow> xml_event list result) \<Rightarrow> real env" where
  "sample_env files =
     \<lparr> env_lib = sample_lib, env_flt = sample_float,
       path_join = (\<lambda>a b. if a = [] then b else a @ ''/'' @ b),
       path_dirname = (\<lambda>p. []),
       iterparse = files \<rparr>"

definition no_files :: "string \<Rightarrow> xml_event list result" where
  "no_files p = Inl (Raise LibraryError (Msg ''FileNotFoundError''))"

definition sample_ctx :: "(real, string \<times> rect option \<times> tileflags option) parse_context" where
  "sample_ctx =
     \<lparr> ctx_path = ''map.tmx'', ctx_folder = [], ctx_image_loader = default_image_loader,
       ctx_invert_y = True, ctx_tiles = [(0, None)], ctx_firstgid = 0 \<rparr>"

text \<open>The object that the builder returns for a tag with only \<^verbatim>\<open>y\<close> and \<^verbatim>\<open>height\<close>.\<close>

definition drawn_object :: "real option \<Rightarrow> real option \<Rightarrow> (real, 'i) obj" where
  "drawn_object y height =
     OObject \<lparr> o_name = None, o_type = None, o_x = None, o_y = y, o_width = None,
               o_height = height, o_rotation = None, o_gid = 0, o_visible = True,
               o_image = None, o_shapes = [], o_properties = None \<rparr>"

text \<open>
  A tileset file \<^verbatim>\<open>shared.tsx\<close> with one tile, its root tag with further attributes
  in front; the files of a folder that holds this file only; the tileset and the tile that
  the parser builds from it; and the attributes of a tag that refers to the file with the
  first gid 5.
\<close>

definition shared_tsx :: "attrib \<Rightarrow> xml" where
  "shared_tsx extra =
     Element ''tileset'' (extra @ [(''name'', ''shared''), (''tilewidth'', ''32''), (''tileheight'', ''32'')])
       None [Element ''tile'' [(''id'', ''0'')] None []]"

definition shared_files :: "attrib \<Rightarrow> string \<Rightarrow> xml_event list result" where
  "shared_files extra p = (if p = ''shared.tsx'' then Inr (events_of (shared_tsx extra)) else no_files p)"

definition shared_tileset :: "int \<Rightarrow> 'i tileset" where
  "shared_tileset fg =
     \<lparr> ts_firstgid = fg, ts_source = None, ts_name = Some ''shared'', ts_tilewidth = Some 32,
       ts_tileheight = Some 32, ts_spacing = 0, ts_margin = 0, ts_tilecount = None,
       ts_columns = None, ts_objectalignment = None, ts_orientation = None, ts_images = [],
       ts_tiles = [], ts_properties = None \<rparr>"

definition shared_tile :: "'i tile" where
  "shared_tile = \<lparr> t_id = Some 0, t_gid = None, t_type = None, t_terrain = None, t_image = None,
                   t_properties = None \<rparr>"

definition reference_tag :: attrib where
  "reference_tag = [(''firstgid'', ''5''), (''source'', ''shared.tsx'')]"

section \<open>Gid flag decoding\<close>

lemma and_single_bit: "(x AND push_bit n 1 = push_bit n (1::int)) = bit x n"
proof
  assume "x AND push_bit n 1 = push_bit n (1::int)"
  then have "bit (x AND push_bit n 1) n = bit (push_bit n (1::int)) n" by simp
  then show "bit x n" by (simp add: bit_simps)
next
  assume "bit x n"
  then show "x AND push_bit n 1 = push_bit n (1::int)"
    by (intro bit_eqI) (auto simp add: bit_simps)
qed

lemma strip_three_bits:
  fixes b f :: int
  assumes "\<not> bit b i" "\<not> bit b j" "\<not> bit b k"
    and "\<And>n. bit f n \<Longrightarrow> n = i \<or> n = j \<or> n = k"
  shows "(b OR f) AND NOT (push_bit i 1 OR push_bit j 1 OR push_bit k 1) = b"
  using assms by (intro bit_eqI) (auto simp add: bit_simps)

lemma clear_three_bits:
  fixes b :: int
  assumes "b AND (push_bit i 1 OR push_bit j 1 OR push_bit k 1) = 0"
  shows "\<not> bit b i \<and> \<not> bit b j \<and> \<not> bit b k"
proof -
  have "\<And>n. \<not> bit (b AND (push_bit i 1 OR push_bit j 1 OR push_bit k 1)) n"
    using assms by simp
  then show ?thesis by (auto simp add: bit_simps)
qed

lemma only_three_bits:
  fixes f :: int
  assumes "f AND NOT (push_bit i 1 OR push_bit j 1 OR push_bit k 1) = 0" and "bit f n"
  shows "n = i \<or> n = j \<or> n = k"
proof -
  have "\<not> bit (f AND NOT (push_bit i 1 OR push_bit j 1 OR push_bit k 1)) n"
    using assms(1) by simp
  then show ?thesis using assms(2) by (auto simp add: bit_simps)
qed

text \<open>
  Claim C1.  Let \<open>base_gid\<close> have its three flag bits (31, 30, 29) clear and let \<open>f\<close> have
  no bit set outside these three.  Then decoding \<open>base_gid OR f\<close> returns \<open>base_gid\<close>
  itself, with the horizontal, vertical and diagonal flag true exactly when bit 31, 30
  and 29 of \<open>f\<close> is set.  The 32-bit gids are among the integers this covers.
\<close>

theorem decode_gid_roundtrip:
  assumes "base_gid AND flag_mask = 0" and "f AND NOT flag_mask = 0"
  shows "decode_gid (base_gid OR f) =
           (base_gid, \<lparr> horizontal = bit f 31, vertical = bit f 30, diagonal = bit f 29 \<rparr>)"
proof -
  have b: "\<not> bit base_gid 31 \<and> \<not> bit base_gid 30 \<and> \<not> bit base_gid 29"
    using assms(1)
    unfolding flag_mask_def GID_TRANS_FLIPX_def GID_TRANS_FLIPY_def GID_TRANS_ROT_def
    by (rule clear_three_bits)
  have f: "\<And>n. bit f n \<Longrightarrow> n = 31 \<or> n = 30 \<or> n = 29"
    using assms(2)
    unfolding flag_mask_def GID_TRANS_FLIPX_def GID_TRANS_FLIPY_def GID_TRANS_ROT_def
    by (rule only_three_bits)
  have g: "(base_gid OR f) AND NOT (GID_TRANS_FLIPX OR GID_TRANS_FLIPY OR GID_TRANS_ROT)
             = base_gid"
    unfolding GID_TRANS_FLIPX_def GID_TRANS_FLIPY_def GID_TRANS_ROT_def
    using b f by (intro strip_three_bits) auto
  have h: "((base_gid OR f) AND GID_TRANS_FLIPX = GID_TRANS_FLIPX) = bit f 31"
    "((base_gid OR f) AND GID_TRANS_FLIPY = GID_TRANS_FLIPY) = bit f 30"
    "((base_gid OR f) AND GID_TRANS_ROT = GID_TRANS_ROT) = bit f 29"
    unfolding GID_TRANS_FLIPX_def GID_TRANS_FLIPY_def GID_TRANS_ROT_def and_single_bit
    using b by (simp_all add: bit_or_iff)
  show ?thesis
    unfolding decode_gid_def Let_def g h by simp
qed

text \<open>
  The theorem at gid 5 with the horizontal and the diagonal flag, and at gid 5 alone
  (\<open>f = 0\<close>), which decodes to itself and three false flags.
\<close>

theorem decode_gid_roundtrip_witness:
  "(5::int) AND flag_mask = 0 \<and> (2684354560::int) AND NOT flag_mask = 0 \<and> (0::int) AND NOT flag_mask = 0
   \<and> decode_gid (5 OR 2684354560) = (5, \<lparr> horizontal = True, vertical = False, diagonal = True \<rparr>)
   \<and> decode_gid 5 = (5, \<lparr> horizontal = False, vertical = False, diagonal = False \<rparr>)"
proof -
  have h1: "(5::int) AND flag_mask = 0"
    by (simp add: flag_mask_def GID_TRANS_FLIPX_def GID_TRANS_FLIPY_def GID_TRANS_ROT_def)
  have h2: "(2684354560::int) AND NOT flag_mask = 0"
    by (simp add: flag_mask_def GID_TRANS_FLIPX_def GID_TRANS_FLIPY_def GID_TRANS_ROT_def)
  have h3: "(0::int) AND NOT flag_mask = 0" by simp
  show ?thesis
    using h1 h2 h3 decode_gid_roundtrip [OF h1 h2] decode_gid_roundtrip [OF h1 h3]
    by simp
qed

section \<open>Sprite-sheet slicing\<close>






section \<open>Unsupported encodings and compressions\<close>

text \<open>
  Claim C4, amended.  A non-empty encoding label other than \<open>base64\<close> and \<open>csv\<close>
  raises the exception that names the label.  Under \<open>base64\<close>, a non-empty compression
  label other than \<open>gzip\<close> and \<open>zlib\<close> never yields a gid list: the text is decoded
  first, and when that succeeds the exception that names the compression label is raised.
  An empty label is treated as an absent one.
\<close>

theorem unpack_gids_unsupported:
  "(encoding = Some e \<and> e \<noteq> ''base64'' \<and> e \<noteq> ''csv'' \<and> e \<noteq> [] \<longrightarrow>
      unpack_gids lib txt encoding compression = Inl (Raise Exception (Encoding_not_supported e)))
   \<and> (compression = Some c \<and> c \<noteq> ''gzip'' \<and> c \<noteq> ''zlib'' \<and> c \<noteq> [] \<longrightarrow>
      isl (unpack_gids lib txt (Some ''base64'') compression)
      \<and> (\<forall>data. b64decode lib txt = Inr data \<longrightarrow>
            unpack_gids lib txt (Some ''base64'') compression
              = Inl (Raise Exception (Compression_not_supported c))))"
  by (auto simp add: unpack_gids_def truthy_str_def bind_result_def split: sum.splits)

text \<open>
  The theorem at the encoding \<open>xml\<close> and at the compression \<open>lzma\<close>.
\<close>

theorem unpack_gids_unsupported_witness:
  "unpack_gids sample_lib (Some ''AQAAAA=='') (Some ''xml'') None
     = Inl (Raise Exception (Encoding_not_supported ''xml''))
   \<and> b64decode sample_lib (Some []) = Inr []
   \<and> unpack_gids sample_lib (Some []) (Some ''base64'') (Some ''lzma'')
     = Inl (Raise Exception (Compression_not_supported ''lzma''))
   \<and> isl (unpack_gids sample_lib (Some ''AQAAAA=='') (Some ''base64'') (Some ''lzma''))"
proof -
  have b: "b64decode sample_lib (Some []) = Inr []" by (simp add: sample_lib_def)
  show ?thesis
    using b
      unpack_gids_unsupported [of "Some ''xml''" "''xml''" sample_lib "Some ''AQAAAA==''" "Some ''lzma''" "''lzma''"]
      unpack_gids_unsupported [of "Some ''xml''" "''xml''" sample_lib "Some []" "Some ''lzma''" "''lzma''"]
      unpack_gids_unsupported [of "Some ''xml''" "''xml''" sample_lib "Some ''AQAAAA==''" None "''lzma''"]
    by simp
qed

text \<open>
  Claim C4 as stated fails at the empty encoding label, which is neither \<open>base64\<close> nor
  \<open>csv\<close>: nothing is raised and \<^verbatim>\<open>None\<close> is returned.
\<close>

theorem unpack_gids_unsupported_counterexample:
  "unpack_gids sample_lib (Some ''1,2,3'') (Some []) (Some ''lzma'') = Inr None"
  by (simp add: unpack_gids_def truthy_str_def)

section \<open>Tile lookup\<close>











section \<open>Image lookup by gid\<close>




section \<open>Tile locations by gid\<close>

lemma visible_from_raises:
  "list_ex layer_visible ls \<Longrightarrow> visible_tile_layers_from i ls = Inl (Raise NameError (Arg ''TiledTileLayer''))"
  by (induction ls arbitrary: i) auto
lemma visible_from_empty:
  "\<not> list_ex layer_visible ls \<Longrightarrow> visible_tile_layers_from i ls = Inr []"
  by (induction ls arbitrary: i) auto

lemma get_tile_locations_never_yields:
  "get_tile_locations_by_gid m gid =
     (if list_ex layer_visible (m_layers m) then Inl (Raise NameError (Arg ''TiledTileLayer'')) else Inr [])"
  by (simp add: get_tile_locations_by_gid_def visible_tile_layers_def visible_from_raises visible_from_empty bind_result_def)

text \<open>
  Claim C8 against the code.  On a map with one visible tile layer whose cell \<open>(0, 0)\<close>
  holds the tile of gid 1, \<open>get_tile_locations_by_gid\<close> yields no coordinate: its first
  step raises \<^verbatim>\<open>NameError\<close> for the undefined name \<^verbatim>\<open>TiledTileLayer\<close>.
\<close>

theorem get_tile_locations_by_gid_name_error:
  "sample_rows ! 0 ! 0 = Some (new_tile 1 ''tiles.png'')
   \<and> get_tile_locations_by_gid (sample_map [TileLayer (sample_layer True sample_rows)]) (PyInt 1)
       = Inl (Raise NameError (Arg ''TiledTileLayer''))"
  by (simp add: get_tile_locations_by_gid_def visible_tile_layers_def sample_map_def default_map_def
      layer_visible_def sample_layer_def bind_result_def sample_rows_def)

section \<open>Inversion of the y axis of objects\<close>

lemma start_Object_eq:
  assumes "start env rec ctx ''Object'' d txt = Inr (ctx', ob)"
  shows "ctx' = ctx \<and> start_Object env ctx d = Inr ob"
  using assms by (auto simp add: start_def bind_result_def split: sum.splits)

text \<open>
  Claim C5.  Let the invert flag of the context be set and let the builder return the
  object for an \<^verbatim>\<open>Object\<close> tag.  When the declared height is a float other than zero,
  the stored \<open>y\<close> is the declared \<open>y\<close> minus the declared height, in the floats'
  subtraction; when the declared height is zero, or no height is declared, the stored
  \<open>y\<close> is the declared \<open>y\<close>.  The declared values are the attributes as \<^verbatim>\<open>float\<close>
  converts them.
\<close>

theorem start_Object_invert_y:
  assumes "ctx_invert_y ctx"
    and "start env rec ctx ''Object'' d txt = Inr (ctx', ob)"
  shows "\<exists>ob' h y.
      ob = OObject ob' \<and> ctx' = ctx
      \<and> get_opt (float_of_str (env_flt env)) d ''height'' = Inr h
      \<and> get_opt (float_of_str (env_flt env)) d ''y'' = Inr y
      \<and> o_height ob' = h
      \<and> (case h of
            None \<Rightarrow> o_y ob' = y
          | Some hv \<Rightarrow>
              if float_truthy (env_flt env) hv
              then (\<exists>yv. y = Some yv \<and> o_y ob' = Some (float_sub (env_flt env) yv hv))
              else o_y ob' = y)"
proof -
  from assms(2) have c: "ctx' = ctx" and s: "start_Object env ctx d = Inr ob"
    using start_Object_eq by blast+
  from s obtain y h where y: "get_opt (float_of_str (env_flt env)) d ''y'' = Inr y"
    and h: "get_opt (float_of_str (env_flt env)) d ''height'' = Inr h"
    by (auto simp add: start_Object_def bind_result_def split: sum.splits)
  show ?thesis
  proof (cases h)
    case None
    with s y h assms(1) c show ?thesis
      by (auto simp add: start_Object_def bind_result_def split: sum.splits)
  next
    case (Some hv)
    show ?thesis
    proof (cases "float_truthy (env_flt env) hv")
      case True
      with s y h assms(1) c Some show ?thesis
        by (cases y) (auto simp add: start_Object_def bind_result_def split: sum.splits)
    next
      case False
      with s y h assms(1) c Some show ?thesis
        by (auto simp add: start_Object_def bind_result_def split: sum.splits)
    qed
  qed
qed

text \<open>
  The theorem at \<open>y = 100\<close> with height 20, stored with \<open>y = 80\<close>, and at
  \<open>y = 100\<close> with height 0, stored with \<open>y = 100\<close>.
\<close>

theorem start_Object_invert_y_witness:
  "ctx_invert_y sample_ctx
   \<and> start (sample_env no_files) (iter_tmx 0 (sample_env no_files)) sample_ctx ''Object''
         [(''y'', ''100''), (''height'', ''20'')] None
       = Inr (sample_ctx, drawn_object (Some 80) (Some 20))
   \<and> start (sample_env no_files) (iter_tmx 0 (sample_env no_files)) sample_ctx ''Object''
         [(''y'', ''100''), (''height'', ''0'')] None
       = Inr (sample_ctx, drawn_object (Some 100) (Some 0))"
proof -
  have h1: "ctx_invert_y sample_ctx" by (simp add: sample_ctx_def)
  have h2: "start (sample_env no_files) (iter_tmx 0 (sample_env no_files)) sample_ctx ''Object''
         [(''y'', ''100''), (''height'', ''20'')] None
       = Inr (sample_ctx, drawn_object (Some 80) (Some 20))"
    by (simp add: start_def start_Object_def get_opt_def get_def_def get_def bind_result_def
        sample_env_def sample_float_def sample_lib_def sample_ctx_def digit_val_def drawn_object_def
        bool_of_str_def)
  have h3: "start (sample_env no_files) (iter_tmx 0 (sample_env no_files)) sample_ctx ''Object''
         [(''y'', ''100''), (''height'', ''0'')] None
       = Inr (sample_ctx, drawn_object (Some 100) (Some 0))"
    by (simp add: start_def start_Object_def get_opt_def get_def_def get_def bind_result_def
        sample_env_def sample_float_def sample_lib_def sample_ctx_def digit_val_def drawn_object_def
        bool_of_str_def)
  show ?thesis
    using h1 h2 h3 start_Object_invert_y [OF h1 h2] start_Object_invert_y [OF h1 h3]
    by blast
qed

section \<open>Layer data without an encoding\<close>

text \<open>
  Claim C10.  With the encoding absent, \<open>unpack_gids\<close> returns \<^verbatim>\<open>None\<close> and raises
  nothing, whatever the text and the compression; and the reducer of \<^verbatim>\<open>Layer.Data\<close>
  stores that \<^verbatim>\<open>None\<close> as the data of the layer.
\<close>

theorem layer_data_without_encoding:
  "unpack_gids (env_lib env) txt None compression = Inr None
   \<and> end_tag env ctx ''Layer.Data'' (Some (OTileLayer lay))
         (OData \<lparr> d_encoding = None, d_compression = compression, d_text = txt \<rparr>)
       = Inr (ctx, Some (OTileLayer (lay \<lparr> tl_data := NoData \<rparr>)),
              OData \<lparr> d_encoding = None, d_compression = compression, d_text = txt \<rparr>)"
  by (simp add: end_tag_def unpack_gids_def truthy_str_def bind_result_def)

section \<open>External tilesets\<close>

subsection \<open>The event loop computes the recursion over the document\<close>

lemma bind_result_simps [simp]:
  "bind_result (Inl e) f = Inl e"
  "bind_result (Inr v) f = f v"
  by (simp_all add: bind_result_def)

lemma run_events_children_aux:
  fixes env :: "'f env" and p :: "('f, 'i) token"
  assumes "\<And>c ctx (p :: ('f, 'i) token) rest ys es. c \<in> set cs \<Longrightarrow>
      run_events env rec ctx (p # rest) ys (events_of c @ es) =
      bind_result (parse_child env rec ctx (tok_type p) (tok_obj p) ys c) (\<lambda>(ctx', pobj', ys').
        run_events env rec ctx' (p \<lparr> tok_obj := pobj' \<rparr> # rest) ys' es)"
  shows "run_events env rec ctx (p # rest) ys (concat (map events_of cs) @ es) =
      bind_result (parse_children env rec ctx (tok_type p) (tok_obj p) ys cs) (\<lambda>(ctx', pobj', ys').
        run_events env rec ctx' (p \<lparr> tok_obj := pobj' \<rparr> # rest) ys' es)"
  using assms
proof (induction cs arbitrary: ctx p ys)
  case Nil
  show ?case by simp
next
  case (Cons c cs)
  have c: "run_events env rec ctx (p # rest) ys (events_of c @ (concat (map events_of cs) @ es)) =
      bind_result (parse_child env rec ctx (tok_type p) (tok_obj p) ys c) (\<lambda>(ctx', pobj', ys').
        run_events env rec ctx' (p \<lparr> tok_obj := pobj' \<rparr> # rest) ys' (concat (map events_of cs) @ es))"
    by (rule Cons.prems) simp
  have r: "\<And>ctx' pobj' ys'.
      run_events env rec ctx' (p \<lparr> tok_obj := pobj' \<rparr> # rest) ys' (concat (map events_of cs) @ es) =
      bind_result (parse_children env rec ctx' (tok_type p) pobj' ys' cs) (\<lambda>(ctx'', pobj'', ys'').
        run_events env rec ctx'' (p \<lparr> tok_obj := pobj'' \<rparr> # rest) ys'' es)"
  proof -
    fix ctx' pobj' ys'
    have "run_events env rec ctx' (p \<lparr> tok_obj := pobj' \<rparr> # rest) ys' (concat (map events_of cs) @ es) =
      bind_result (parse_children env rec ctx' (tok_type (p \<lparr> tok_obj := pobj' \<rparr>))
         (tok_obj (p \<lparr> tok_obj := pobj' \<rparr>)) ys' cs) (\<lambda>(ctx'', pobj'', ys'').
        run_events env rec ctx'' (p \<lparr> tok_obj := pobj' \<rparr> \<lparr> tok_obj := pobj'' \<rparr> # rest) ys'' es)"
      by (rule Cons.IH) (rule Cons.prems, simp)
    then show "run_events env rec ctx' (p \<lparr> tok_obj := pobj' \<rparr> # rest) ys' (concat (map events_of cs) @ es) =
      bind_result (parse_children env rec ctx' (tok_type p) pobj' ys' cs) (\<lambda>(ctx'', pobj'', ys'').
        run_events env rec ctx'' (p \<lparr> tok_obj := pobj'' \<rparr> # rest) ys'' es)"
      by simp
  qed
  show ?case
    using c
    by (cases "parse_child env rec ctx (tok_type p) (tok_obj p) ys c") (auto simp add: r)
qed

lemma run_events_child:
  fixes env :: "'f env" and p :: "('f, 'i) token"
  shows "run_events env rec ctx (p # rest) ys (events_of t @ es) =
      bind_result (parse_child env rec ctx (tok_type p) (tok_obj p) ys t) (\<lambda>(ctx', pobj', ys').
        run_events env rec ctx' (p \<lparr> tok_obj := pobj' \<rparr> # rest) ys' es)"
proof (induction t arbitrary: ctx p rest ys es)
  case (Element tg d tx cs)
  have ch: "\<And>ctx (q :: ('f, 'i) token) rest ys es.
      run_events env rec ctx (q # rest) ys (concat (map events_of cs) @ es) =
      bind_result (parse_children env rec ctx (tok_type q) (tok_obj q) ys cs) (\<lambda>(ctx', pobj', ys').
        run_events env rec ctx' (q \<lparr> tok_obj := pobj' \<rparr> # rest) ys' es)"
    by (rule run_events_children_aux) (rule Element.IH)
  show ?case
    by (simp add: ch bind_result_def split: sum.splits prod.splits option.splits)
qed

lemma run_events_children:
  fixes env :: "'f env" and p :: "('f, 'i) token"
  shows "run_events env rec ctx (p # rest) ys (concat (map events_of cs) @ es) =
      bind_result (parse_children env rec ctx (tok_type p) (tok_obj p) ys cs) (\<lambda>(ctx', pobj', ys').
        run_events env rec ctx' (p \<lparr> tok_obj := pobj' \<rparr> # rest) ys' es)"
  by (rule run_events_children_aux) (rule run_events_child)

lemma run_events_root:
  "run_events env rec ctx [] ys (events_of t) = parse_root env rec ctx ys t"
proof (cases t)
  case (Element tg d tx cs)
  show ?thesis
    unfolding Element parse_root_def
    by (simp add: run_events_children bind_result_def split: sum.splits prod.splits option.splits)
qed

lemma iter_tmx_tree:
  "iterparse env path = Inr (events_of t) \<Longrightarrow>
   iter_tmx (Suc n) env ctx path = parse_root env (iter_tmx n env) ctx [] t"
  by (simp add: run_events_root)

subsection \<open>What the reducers accept and change\<close>

lemma end_tag_path:
  assumes "end_tag env ctx path parent child = Inr r"
  shows "path \<in> set accepted_paths"
proof (rule ccontr)
  assume "path \<notin> set accepted_paths"
  then have "end_tag env ctx path parent child = Inl (Raise ValueError (Arg path))
      \<or> end_tag env ctx path parent child = Inl (Raise MasonException Xml_tile_elements_not_supported)"
    unfolding end_tag_def accepted_paths_def by simp
  with assms show False by auto
qed

lemma end_tag_ctx:
  assumes "end_tag env ctx path parent child = Inr (ctx', parent', child')"
  shows "ctx' = ctx \<lparr> ctx_tiles := ctx_tiles ctx' \<rparr>"
  using assms end_tag_path [OF assms]
  unfolding accepted_paths_def
  apply simp
  apply (elim disjE)
  apply (simp_all add: end_tag_def)
  apply (auto simp add: other_class_def end_Tileset_Image_def end_Tileset_Tile_def Let_def bind_result_def split: option.splits obj.splits if_splits sum.splits prod.splits)
  done

lemma same_but_tiles_refl: "same_but_tiles ctx ctx"
  by (simp add: same_but_tiles_def)

lemma same_but_tiles_trans:
  "same_but_tiles a b \<Longrightarrow> same_but_tiles b c \<Longrightarrow> same_but_tiles a c"
  by (simp add: same_but_tiles_def)

lemma end_tag_same:
  assumes "end_tag env ctx path parent child = Inr (ctx', parent', child')"
  shows "same_but_tiles ctx ctx'"
proof -
  have "ctx' = ctx \<lparr> ctx_tiles := ctx_tiles ctx' \<rparr>" using assms by (rule end_tag_ctx)
  then have "same_but_tiles ctx (ctx \<lparr> ctx_tiles := ctx_tiles ctx' \<rparr>) \<Longrightarrow> same_but_tiles ctx ctx'"
    by simp
  then show ?thesis by (simp add: same_but_tiles_def)
qed

lemma append_eq_suffix:
  "(xs @ ys = zs) =
     (length ys \<le> length zs \<and> xs = take (length zs - length ys) zs
      \<and> ys = drop (length zs - length ys) zs)"
  by (metis append_eq_conv_conj append_take_drop_id diff_add_inverse2 length_append length_drop
      le_add2 diff_diff_cancel)

lemma path_name_Tileset:
  "ptype @ ''.'' @ ''Tileset'' \<in> set accepted_paths \<Longrightarrow> ptype = ''Map''"
  by (simp add: accepted_paths_def append_eq_suffix)

lemma path_name_Map:
  "ptype @ ''.'' @ ''Map'' \<notin> set accepted_paths"
  by (simp add: accepted_paths_def append_eq_suffix)


lemma start_ctx:
  assumes "name \<noteq> ''Tileset''" and "start env rec ctx name d txt = Inr (ctx', ob)"
  shows "ctx' = ctx"
  using assms unfolding start_def
  by (simp add: bind_result_def split: if_splits sum.splits)


lemma parse_child_InrE:
  assumes "parse_child env rec ctx ptype pobj ys (Element tg d tx cs) = Inr (ctx', pobj', ys')"
  shows "\<exists>ctx1 ob ctx2 ob2 ys2 parent' child'.
      start env rec ctx (title tg) d tx = Inr (ctx1, ob)
      \<and> parse_children env rec ctx1 (title tg) ob ys cs = Inr (ctx2, ob2, ys2)
      \<and> end_tag env ctx2 (ptype @ ''.'' @ title tg) (Some pobj) ob2 = Inr (ctx', parent', child')
      \<and> pobj' = (case parent' of None \<Rightarrow> pobj | Some ob' \<Rightarrow> ob')
      \<and> ys' = ys2 @ [child']"
  using assms by (auto simp add: bind_result_def split: sum.splits prod.splits)

lemma parse_children_ConsE:
  assumes "parse_children env rec ctx ptype pobj ys (c # cs) = Inr (ctx', pobj', ys')"
  shows "\<exists>ctx1 pobj1 ys1.
      parse_child env rec ctx ptype pobj ys c = Inr (ctx1, pobj1, ys1)
      \<and> parse_children env rec ctx1 ptype pobj1 ys1 cs = Inr (ctx', pobj', ys')"
  using assms by (auto simp add: bind_result_def split: sum.splits prod.splits)

lemma parse_children_same_aux:
  assumes "\<And>c ctx pobj ys ctx' pobj' ys'. c \<in> set cs \<Longrightarrow>
      parse_child env rec ctx ptype pobj ys c = Inr (ctx', pobj', ys') \<Longrightarrow> same_but_tiles ctx ctx'"
    and "parse_children env rec ctx ptype pobj ys cs = Inr (ctx', pobj', ys')"
  shows "same_but_tiles ctx ctx'"
  using assms
proof (induction cs arbitrary: ctx pobj ys)
  case Nil
  then show ?case by (simp add: same_but_tiles_refl)
next
  case (Cons c cs)
  from parse_children_ConsE [OF Cons.prems(2)] obtain ctx1 pobj1 ys1 where
    c: "parse_child env rec ctx ptype pobj ys c = Inr (ctx1, pobj1, ys1)"
    and r: "parse_children env rec ctx1 ptype pobj1 ys1 cs = Inr (ctx', pobj', ys')"
    by blast
  have "same_but_tiles ctx ctx1" using c by (intro Cons.prems(1)) simp_all
  moreover have "same_but_tiles ctx1 ctx'"
    using r by (intro Cons.IH [of ctx1 pobj1 ys1]) (auto intro: Cons.prems(1))
  ultimately show ?case by (rule same_but_tiles_trans)
qed

lemma parse_child_same:
  assumes "ptype \<noteq> ''Map''"
    and "parse_child env rec ctx ptype pobj ys t = Inr (ctx', pobj', ys')"
  shows "same_but_tiles ctx ctx'"
  using assms
proof (induction t arbitrary: ctx ptype pobj ys ctx' pobj' ys')
  case (Element tg d tx cs)
  from parse_child_InrE [OF Element.prems(2)] obtain ctx1 ob ctx2 ob2 ys2 parent' child' where
    s: "start env rec ctx (title tg) d tx = Inr (ctx1, ob)"
    and c: "parse_children env rec ctx1 (title tg) ob ys cs = Inr (ctx2, ob2, ys2)"
    and e: "end_tag env ctx2 (ptype @ ''.'' @ title tg) (Some pobj) ob2 = Inr (ctx', parent', child')"
    by blast
  have acc: "ptype @ ''.'' @ title tg \<in> set accepted_paths" using e by (rule end_tag_path)
  have nt: "title tg \<noteq> ''Tileset''"
    using acc path_name_Tileset [of ptype] Element.prems(1) by auto
  have nm: "title tg \<noteq> ''Map''"
    using acc path_name_Map [of ptype] by auto
  have "ctx1 = ctx" using nt s by (rule start_ctx)
  moreover have "same_but_tiles ctx1 ctx2"
    using _ c
  proof (rule parse_children_same_aux)
    fix c' ctxa pobja ysa ctxb pobjb ysb
    assume "c' \<in> set cs" and "parse_child env rec ctxa (title tg) pobja ysa c' = Inr (ctxb, pobjb, ysb)"
    then show "same_but_tiles ctxa ctxb" using nm by (intro Element.IH [of c' "title tg"]) auto
  qed
  moreover have "same_but_tiles ctx2 ctx'" using e by (rule end_tag_same)
  ultimately show ?case using same_but_tiles_trans by blast
qed

lemma parse_children_same:
  assumes "ptype \<noteq> ''Map''"
    and "parse_children env rec ctx ptype pobj ys cs = Inr (ctx', pobj', ys')"
  shows "same_but_tiles ctx ctx'"
  using _ assms(2)
proof (rule parse_children_same_aux)
  fix c ctxa pobja ysa ctxb pobjb ysb
  assume "parse_child env rec ctxa ptype pobja ysa c = Inr (ctxb, pobjb, ysb)"
  then show "same_but_tiles ctxa ctxb" using assms(1) by (intro parse_child_same)
qed

lemma similar_refl: "similar a a"
  by (cases a) (simp_all add: similar_def)

lemma below_tilesetE:
  assumes "below_tileset p"
  obtains "p = ''Tileset''" | "p = ''Tile''" | "p = ''Properties''"
    | "p = ''Grid''" | "p = ''Image''" | "p = ''Property''"
  using assms unfolding below_tileset_def insert_iff empty_iff
  by (elim disjE) simp_all

lemma path_below_tileset:
  assumes "below_tileset ptype" and "ptype @ ''.'' @ name \<in> set accepted_paths"
  shows "(ptype = ''Tileset'' \<and> name = ''Grid'') \<or> (ptype = ''Tileset'' \<and> name = ''Image'')
       \<or> (ptype = ''Tileset'' \<and> name = ''Properties'') \<or> (ptype = ''Tileset'' \<and> name = ''Tile'')
       \<or> (ptype = ''Tile'' \<and> name = ''Properties'') \<or> (ptype = ''Tile'' \<and> name = ''Image'')
       \<or> (ptype = ''Properties'' \<and> name = ''Property'')"
  using assms(1)
proof (cases rule: below_tilesetE)
  case 1
  with assms(2) show ?thesis by (simp add: accepted_paths_def)
next
  case 2
  with assms(2) show ?thesis by (simp add: accepted_paths_def)
next
  case 3
  with assms(2) show ?thesis by (simp add: accepted_paths_def)
next
  case 4
  with assms(2) show ?thesis by (simp add: accepted_paths_def)
next
  case 5
  with assms(2) show ?thesis by (simp add: accepted_paths_def)
next
  case 6
  with assms(2) show ?thesis by (simp add: accepted_paths_def)
qed

lemma end_tag_below_tileset:
  assumes "end_tag env ctx (ptype @ ''.'' @ name) (Some p) c = Inr (ctx', p', c')"
    and "below_tileset ptype"
  shows "(ptype = ''Tileset'' \<and> name = ''Grid'' \<and> (\<exists>gr. c = OGrid gr
            \<and> ((\<exists>ts. p = OTileset ts \<and> p' = Some (OTileset (ts \<lparr> ts_orientation := gr_orientation gr \<rparr>)))
               \<or> (\<exists>m. p = OMap m \<and> p' = Some (OMap (m \<lparr> m_orientation := gr_orientation gr \<rparr>))))))
       \<or> (ptype = ''Tileset'' \<and> name = ''Image'' \<and> p' = Some p)
       \<or> (ptype = ''Tileset'' \<and> name = ''Properties'' \<and> (\<exists>ps. c = OProperties ps
            \<and> ((\<exists>ts. p = OTileset ts \<and> p' = Some (OTileset (ts \<lparr> ts_properties := Some ps \<rparr>)))
               \<or> (\<exists>m. p = OMap m \<and> p' = Some (OMap (m \<lparr> m_properties := ps \<rparr>))))))
       \<or> (ptype = ''Tileset'' \<and> name = ''Tile'' \<and> (\<exists>ts f. p = OTileset ts
            \<and> p' = Some (OTileset (ts \<lparr> ts_firstgid := f \<rparr>))))
       \<or> (ptype = ''Tile'' \<and> name = ''Properties'' \<and> (\<exists>t ps. p = OTile t \<and> c = OProperties ps
            \<and> p' = Some (OTile (t \<lparr> t_properties := Some ps \<rparr>))))
       \<or> (ptype = ''Tile'' \<and> name = ''Image'' \<and> (\<exists>t img. p = OTile t
            \<and> p' = Some (OTile (t \<lparr> t_image := Some img \<rparr>))))
       \<or> (ptype = ''Properties'' \<and> name = ''Property'' \<and> (\<exists>ps pr. p = OProperties ps \<and> c = OProperty pr
            \<and> p' = Some (OProperties (AList.update (p_name pr) (p_value pr) ps))))"
proof -
  have "ptype @ ''.'' @ name \<in> set accepted_paths" using assms(1) by (rule end_tag_path)
  from path_below_tileset [OF assms(2) this] show ?thesis
  proof (elim disjE conjE, goal_cases)
    case 1
    with assms(1) show ?case
      by (auto simp add: end_tag_def other_class_def split: obj.splits if_splits)
  next
    case 2
    with assms(1) show ?case
      by (auto simp add: end_tag_def other_class_def bind_result_def split: obj.splits sum.splits)
  next
    case 3
    with assms(1) show ?case
      by (auto simp add: end_tag_def other_class_def split: obj.splits if_splits)
  next
    case 4
    with assms(1) have "\<exists>ts t. p = OTileset ts \<and> c = OTile t
        \<and> (p' = Some (OTileset ts) \<or> p' = Some (OTileset (ts \<lparr> ts_firstgid := ctx_firstgid ctx \<rparr>)))"
      by (auto simp add: end_tag_def other_class_def end_Tileset_Tile_def Let_def bind_result_def
          split: obj.splits sum.splits if_splits)
    then obtain ts where p: "p = OTileset ts"
      and "p' = Some (OTileset (ts \<lparr> ts_firstgid := ts_firstgid ts \<rparr>))
           \<or> p' = Some (OTileset (ts \<lparr> ts_firstgid := ctx_firstgid ctx \<rparr>))"
      by auto
    then have "\<exists>f. p' = Some (OTileset (ts \<lparr> ts_firstgid := f \<rparr>))" by blast
    with p 4 show ?case by simp
  next
    case 5
    with assms(1) show ?case
      by (auto simp add: end_tag_def other_class_def split: obj.splits if_splits)
  next
    case 6
    with assms(1) show ?case
      by (auto simp add: end_tag_def other_class_def bind_result_def split: obj.splits sum.splits option.splits)
  next
    case 7
    with assms(1) show ?case
      by (auto simp add: end_tag_def other_class_def split: obj.splits if_splits)
  qed
qed

lemma below_tileset_name:
  assumes "below_tileset ptype" and "ptype @ ''.'' @ name \<in> set accepted_paths"
  shows "below_tileset name \<and> name \<noteq> ''Tileset'' \<and> name \<noteq> ''Map''
       \<and> (name = ''Grid'' \<or> name = ''Image'' \<or> name = ''Properties'' \<or> name = ''Property''
          \<or> name = ''Tile'')"
  using path_below_tileset [OF assms]
  by (elim disjE conjE) (simp_all add: below_tileset_def)

lemma tileset_eq_but_firstgid:
  "(a \<lparr> ts_firstgid := 0 \<rparr> = b \<lparr> ts_firstgid := 0 \<rparr>) =
     (ts_source a = ts_source b \<and> ts_name a = ts_name b \<and> ts_tilewidth a = ts_tilewidth b
      \<and> ts_tileheight a = ts_tileheight b \<and> ts_spacing a = ts_spacing b
      \<and> ts_margin a = ts_margin b \<and> ts_tilecount a = ts_tilecount b
      \<and> ts_columns a = ts_columns b \<and> ts_objectalignment a = ts_objectalignment b
      \<and> ts_orientation a = ts_orientation b \<and> ts_images a = ts_images b
      \<and> ts_tiles a = ts_tiles b \<and> ts_properties a = ts_properties b
      \<and> tileset.more a = tileset.more b)"
  by (cases a, cases b) auto

lemma tile_eq_but_image:
  "(a \<lparr> t_image := None \<rparr> = b \<lparr> t_image := None \<rparr>) =
     (t_id a = t_id b \<and> t_gid a = t_gid b \<and> t_type a = t_type b \<and> t_terrain a = t_terrain b
      \<and> t_properties a = t_properties b \<and> tile.more a = tile.more b)"
  by (cases a, cases b) auto

lemma similar_Tileset:
  "similar (OTileset a) b = (\<exists>sb. b = OTileset sb \<and> a \<lparr> ts_firstgid := 0 \<rparr> = sb \<lparr> ts_firstgid := 0 \<rparr>)"
  by (cases b) (simp_all add: similar_def)

lemma similar_Tile:
  "similar (OTile a) b = (\<exists>tb. b = OTile tb \<and> a \<lparr> t_image := None \<rparr> = tb \<lparr> t_image := None \<rparr>)"
  by (cases b) (simp_all add: similar_def)

lemma similar_eq:
  "\<forall>x. a \<noteq> OTile x \<Longrightarrow> \<forall>x. a \<noteq> OTileset x \<Longrightarrow> similar a b = (a = b)"
  by (cases a) (auto simp add: similar_def)

lemma end_tag_similar_below:
  assumes A: "end_tag env ctxA (ptype @ ''.'' @ name) (Some pA) cA = Inr (ctxA', pA', cA')"
    and B: "end_tag env ctxB (ptype @ ''.'' @ name) (Some pB) cB = Inr (ctxB', pB', cB')"
    and bt: "below_tileset ptype"
    and sp: "similar pA pB" and sc: "similar cA cB"
  shows "\<exists>qA qB. pA' = Some qA \<and> pB' = Some qB \<and> similar qA qB"
proof -
  have acc: "ptype @ ''.'' @ name \<in> set accepted_paths" using A by (rule end_tag_path)
  note sA = end_tag_below_tileset [OF A bt]
  note sB = end_tag_below_tileset [OF B bt]
  from path_below_tileset [OF bt acc] show ?thesis
  proof (elim disjE conjE, goal_cases)
    case 1
    with sA sB sp sc show ?case
      by (auto simp add: similar_Tileset similar_eq tileset_eq_but_firstgid)
  next
    case 2
    with sA sB sp sc show ?case by auto
  next
    case 3
    with sA sB sp sc show ?case
      by (auto simp add: similar_Tileset similar_eq tileset_eq_but_firstgid)
  next
    case 4
    with sA sB sp sc show ?case
      by (auto simp add: similar_Tileset tileset_eq_but_firstgid)
  next
    case 5
    with sA sB sp sc show ?case
      by (auto simp add: similar_Tile similar_eq tile_eq_but_image)
  next
    case 6
    with sA sB sp sc show ?case
      by (auto simp add: similar_Tile tile_eq_but_image)
  next
    case 7
    with sA sB sp sc show ?case
      by (auto simp add: similar_eq)
  qed
qed

lemma start_below_indep:
  assumes "name = ''Grid'' \<or> name = ''Image'' \<or> name = ''Properties'' \<or> name = ''Property''
          \<or> name = ''Tile''"
    and "start env recA ctxA name d tx = Inr (ctxA', obA)"
    and "start env recB ctxB name d tx = Inr (ctxB', obB)"
  shows "obA = obB"
  using assms
  by (elim disjE) (auto simp add: start_def bind_result_def split: sum.splits)

subsection \<open>Objects built from the same document\<close>

lemma parse_children_similar_aux:
  assumes IH: "\<And>c ctxA ctxB pA pB ysA ysB ctxA' pA' ysA' ctxB' pB' ysB'. c \<in> set cs \<Longrightarrow>
      parse_child env recA ctxA ptype pA ysA c = Inr (ctxA', pA', ysA') \<Longrightarrow>
      parse_child env recB ctxB ptype pB ysB c = Inr (ctxB', pB', ysB') \<Longrightarrow>
      similar pA pB \<Longrightarrow> similar pA' pB'"
    and "parse_children env recA ctxA ptype pA ysA cs = Inr (ctxA', pA', ysA')"
    and "parse_children env recB ctxB ptype pB ysB cs = Inr (ctxB', pB', ysB')"
    and "similar pA pB"
  shows "similar pA' pB'"
  using assms
proof (induction cs arbitrary: ctxA ctxB pA pB ysA ysB)
  case Nil
  then show ?case by simp
next
  case (Cons c cs)
  from parse_children_ConsE [OF Cons.prems(2)] obtain ctxA1 pA1 ysA1 where
    a1: "parse_child env recA ctxA ptype pA ysA c = Inr (ctxA1, pA1, ysA1)"
    and a2: "parse_children env recA ctxA1 ptype pA1 ysA1 cs = Inr (ctxA', pA', ysA')"
    by blast
  from parse_children_ConsE [OF Cons.prems(3)] obtain ctxB1 pB1 ysB1 where
    b1: "parse_child env recB ctxB ptype pB ysB c = Inr (ctxB1, pB1, ysB1)"
    and b2: "parse_children env recB ctxB1 ptype pB1 ysB1 cs = Inr (ctxB', pB', ysB')"
    by blast
  have s1: "similar pA1 pB1"
    using _ a1 b1 Cons.prems(4) by (rule Cons.prems(1)) simp
  show ?case
    using _ a2 b2 s1
  proof (rule Cons.IH)
    fix c' ctxA ctxB pA pB ysA ysB ctxA' pA' ysA' ctxB' pB' ysB'
    assume m: "c' \<in> set cs"
      and a: "parse_child env recA ctxA ptype pA ysA c' = Inr (ctxA', pA', ysA')"
      and b: "parse_child env recB ctxB ptype pB ysB c' = Inr (ctxB', pB', ysB')"
      and s: "similar pA pB"
    from m have "c' \<in> set (c # cs)" by simp
    then show "similar pA' pB'" using a b s by (rule Cons.prems(1))
  qed
qed

lemma parse_child_similar:
  assumes "below_tileset ptype"
    and "parse_child env recA ctxA ptype pA ysA t = Inr (ctxA', pA', ysA')"
    and "parse_child env recB ctxB ptype pB ysB t = Inr (ctxB', pB', ysB')"
    and "similar pA pB"
  shows "similar pA' pB'"
  using assms
proof (induction t arbitrary: ptype ctxA ctxB pA pB ysA ysB ctxA' pA' ysA' ctxB' pB' ysB')
  case (Element tg d tx cs)
  from parse_child_InrE [OF Element.prems(2)] obtain ctxA1 obA ctxA2 obA2 ysA2 parA chA where
    sA: "start env recA ctxA (title tg) d tx = Inr (ctxA1, obA)"
    and cA: "parse_children env recA ctxA1 (title tg) obA ysA cs = Inr (ctxA2, obA2, ysA2)"
    and eA: "end_tag env ctxA2 (ptype @ ''.'' @ title tg) (Some pA) obA2 = Inr (ctxA', parA, chA)"
    and pA': "pA' = (case parA of None \<Rightarrow> pA | Some ob' \<Rightarrow> ob')"
    by blast
  from parse_child_InrE [OF Element.prems(3)] obtain ctxB1 obB ctxB2 obB2 ysB2 parB chB where
    sB: "start env recB ctxB (title tg) d tx = Inr (ctxB1, obB)"
    and cB: "parse_children env recB ctxB1 (title tg) obB ysB cs = Inr (ctxB2, obB2, ysB2)"
    and eB: "end_tag env ctxB2 (ptype @ ''.'' @ title tg) (Some pB) obB2 = Inr (ctxB', parB, chB)"
    and pB': "pB' = (case parB of None \<Rightarrow> pB | Some ob' \<Rightarrow> ob')"
    by blast
  have acc: "ptype @ ''.'' @ title tg \<in> set accepted_paths" using eA by (rule end_tag_path)
  note nm = below_tileset_name [OF Element.prems(1) acc]
  have nm5: "title tg = ''Grid'' \<or> title tg = ''Image'' \<or> title tg = ''Properties''
      \<or> title tg = ''Property'' \<or> title tg = ''Tile''"
    using nm by (rule conjunct2 [THEN conjunct2, THEN conjunct2])
  have bn: "below_tileset (title tg)" using nm by (rule conjunct1)
  have "obA = obB" using nm5 sA sB by (rule start_below_indep)
  then have s0: "similar obA obB" by (simp add: similar_refl)
  have s2: "similar obA2 obB2"
    using _ cA cB s0
  proof (rule parse_children_similar_aux)
    fix c ctxA ctxB pA pB ysA ysB ctxA' pA' ysA' ctxB' pB' ysB'
    assume m: "c \<in> set cs"
      and a: "parse_child env recA ctxA (title tg) pA ysA c = Inr (ctxA', pA', ysA')"
      and b: "parse_child env recB ctxB (title tg) pB ysB c = Inr (ctxB', pB', ysB')"
      and s: "similar pA pB"
    show "similar pA' pB'" using m bn a b s by (rule Element.IH)
  qed
  from end_tag_similar_below [OF eA eB Element.prems(1) Element.prems(4) s2]
  obtain qA qB where "parA = Some qA" "parB = Some qB" "similar qA qB" by blast
  then show ?case using pA' pB' by simp
qed

lemma parse_children_similar:
  assumes "below_tileset ptype"
    and "parse_children env recA ctxA ptype pA ysA cs = Inr (ctxA', pA', ysA')"
    and "parse_children env recB ctxB ptype pB ysB cs = Inr (ctxB', pB', ysB')"
    and "similar pA pB"
  shows "similar pA' pB'"
  using _ assms(2,3,4)
proof (rule parse_children_similar_aux)
  fix c ctxA ctxB pA pB ysA ysB ctxA' pA' ysA' ctxB' pB' ysB'
  assume a: "parse_child env recA ctxA ptype pA ysA c = Inr (ctxA', pA', ysA')"
    and b: "parse_child env recB ctxB ptype pB ysB c = Inr (ctxB', pB', ysB')"
    and s: "similar pA pB"
  show "similar pA' pB'" using assms(1) a b s by (rule parse_child_similar)
qed

subsection \<open>The first gid of an external tileset\<close>

lemma end_tag_Tileset_parent:
  assumes "end_tag env ctx (''Tileset'' @ ''.'' @ name) (Some (OTileset ts)) child = Inr (ctx', parent', child')"
  shows "\<exists>ts'. parent' = Some (OTileset ts')
     \<and> ts_firstgid ts' = (if ts_firstgid ts = 0 \<and> name = ''Tile'' then ctx_firstgid ctx else ts_firstgid ts)"
proof -
  have "''Tileset'' @ ''.'' @ name \<in> set accepted_paths" using assms by (rule end_tag_path)
  then have "name = ''Grid'' \<or> name = ''Image'' \<or> name = ''Properties'' \<or> name = ''Tile''"
    by (simp add: accepted_paths_def)
  then show ?thesis
    using assms
    apply (elim disjE)
       apply (simp_all add: end_tag_def)
       apply (auto simp add: other_class_def end_Tileset_Tile_def Let_def bind_result_def
        split: obj.splits if_splits sum.splits prod.splits)
    done
qed

lemma below_tileset_Tileset: "below_tileset ''Tileset''"
  by (simp add: below_tileset_def)

lemma tileset_child_firstgid:
  assumes "parse_child env rec ctx ''Tileset'' (OTileset ts) ys c = Inr (ctx', pobj', ys')"
  shows "\<exists>ts'. pobj' = OTileset ts' \<and> same_but_tiles ctx ctx'
     \<and> ts_firstgid ts' =
         (if ts_firstgid ts = 0 \<and> title (xml_tag c) = ''Tile'' then ctx_firstgid ctx
          else ts_firstgid ts)"
proof (cases c)
  case (Element tg d tx cs)
  from parse_child_InrE [OF assms [unfolded Element]] obtain ctx1 ob ctx2 ob2 ys2 par ch where
    s: "start env rec ctx (title tg) d tx = Inr (ctx1, ob)"
    and c: "parse_children env rec ctx1 (title tg) ob ys cs = Inr (ctx2, ob2, ys2)"
    and e: "end_tag env ctx2 (''Tileset'' @ ''.'' @ title tg) (Some (OTileset ts)) ob2 = Inr (ctx', par, ch)"
    and p: "pobj' = (case par of None \<Rightarrow> OTileset ts | Some ob' \<Rightarrow> ob')"
    by blast
  have acc: "''Tileset'' @ ''.'' @ title tg \<in> set accepted_paths" using e by (rule end_tag_path)
  note nm = below_tileset_name [OF below_tileset_Tileset acc]
  have nt: "title tg \<noteq> ''Tileset''" and nmap: "title tg \<noteq> ''Map''" using nm by simp_all
  have c1: "ctx1 = ctx" using nt s by (rule start_ctx)
  have s12: "same_but_tiles ctx1 ctx2" using nmap c by (rule parse_children_same)
  have s2: "same_but_tiles ctx2 ctx'" using e by (rule end_tag_same)
  have s02: "same_but_tiles ctx ctx2" using s12 c1 by simp
  have s0: "same_but_tiles ctx ctx'" using s02 s2 by (rule same_but_tiles_trans)
  have g: "ctx_firstgid ctx2 = ctx_firstgid ctx" using s02 by (simp add: same_but_tiles_def)
  from end_tag_Tileset_parent [OF e] obtain ts' where
    "par = Some (OTileset ts')"
    "ts_firstgid ts' = (if ts_firstgid ts = 0 \<and> title tg = ''Tile'' then ctx_firstgid ctx2 else ts_firstgid ts)"
    by blast
  then show ?thesis using p g s0 Element by simp
qed

lemma tileset_children_firstgid:
  assumes "parse_children env rec ctx ''Tileset'' (OTileset ts) ys cs = Inr (ctx', pobj', ys')"
  shows "\<exists>ts'. pobj' = OTileset ts' \<and> same_but_tiles ctx ctx'
     \<and> ts_firstgid ts' =
         (if ts_firstgid ts = 0 \<and> list_ex (\<lambda>c. title (xml_tag c) = ''Tile'') cs then ctx_firstgid ctx
          else ts_firstgid ts)"
  using assms
proof (induction cs arbitrary: ctx ts ys)
  case Nil
  then show ?case by (auto simp add: same_but_tiles_refl)
next
  case (Cons c cs)
  from parse_children_ConsE [OF Cons.prems] obtain ctx1 pobj1 ys1 where
    a: "parse_child env rec ctx ''Tileset'' (OTileset ts) ys c = Inr (ctx1, pobj1, ys1)"
    and b: "parse_children env rec ctx1 ''Tileset'' pobj1 ys1 cs = Inr (ctx', pobj', ys')"
    by blast
  from tileset_child_firstgid [OF a] obtain ts1 where
    p1: "pobj1 = OTileset ts1" and s1: "same_but_tiles ctx ctx1"
    and f1: "ts_firstgid ts1 =
         (if ts_firstgid ts = 0 \<and> title (xml_tag c) = ''Tile'' then ctx_firstgid ctx
          else ts_firstgid ts)"
    by blast
  from Cons.IH [OF b [unfolded p1]] obtain ts' where
    p': "pobj' = OTileset ts'" and s': "same_but_tiles ctx1 ctx'"
    and f': "ts_firstgid ts' =
         (if ts_firstgid ts1 = 0 \<and> list_ex (\<lambda>c. title (xml_tag c) = ''Tile'') cs then ctx_firstgid ctx1
          else ts_firstgid ts1)"
    by blast
  have g: "ctx_firstgid ctx1 = ctx_firstgid ctx" using s1 by (simp add: same_but_tiles_def)
  have "same_but_tiles ctx ctx'" using s1 s' by (rule same_but_tiles_trans)
  moreover have "ts_firstgid ts' =
         (if ts_firstgid ts = 0 \<and> list_ex (\<lambda>c. title (xml_tag c) = ''Tile'') (c # cs) then ctx_firstgid ctx
          else ts_firstgid ts)"
    using f1 f' g by (auto split: if_splits)
  ultimately show ?case using p' by blast
qed

lemma get_def_of_get_opt:
  "get_opt conv d key = Inr v \<Longrightarrow> get_def conv d key dflt = Inr (case v of None \<Rightarrow> dflt | Some x \<Rightarrow> x)"
  by (auto simp add: get_opt_def get_def_def bind_result_def split: option.splits sum.splits)

lemma start_Tileset_inline:
  assumes "\<not> truthy_str (get d ''source'')"
    and "start env rec ctx ''Tileset'' d tx = Inr (ctx1, ob)"
  shows "\<exists>f0 ts0. get_def (int_of_str (env_lib env)) d ''firstgid'' 0 = Inr f0
     \<and> ob = OTileset ts0 \<and> ts_firstgid ts0 = f0
     \<and> ctx_firstgid ctx1 = (if f0 \<noteq> 0 then f0 else ctx_firstgid ctx)"
proof -
  from assms(2) obtain fo where fo: "get_opt (int_of_str (env_lib env)) d ''firstgid'' = Inr fo"
    by (auto simp add: start_def start_Tileset_def Let_def bind_result_def split: sum.splits)
  note gd = get_def_of_get_opt [OF fo, of 0]
  show ?thesis
    using assms fo gd
    by (auto simp add: start_def start_Tileset_def Let_def bind_result_def
        split: sum.splits option.splits)
qed

lemma start_Tileset_inline_indep:
  assumes "\<not> truthy_str (get d ''source'')"
    and "start env recA ctxA ''Tileset'' d tx = Inr (ctxA1, obA)"
    and "start env recB ctxB ''Tileset'' d tx = Inr (ctxB1, obB)"
  shows "obA = obB"
  using assms
  by (auto simp add: start_def start_Tileset_def Let_def bind_result_def
      split: sum.splits option.splits)

lemma parse_root_InrE:
  assumes "parse_root env rec ctx ys (Element tg d tx cs) = Inr (ctx', ys')"
  shows "\<exists>ctx1 ob ctx2 ob2 ys2 par ch.
      start env rec ctx (title tg) d tx = Inr (ctx1, ob)
      \<and> parse_children env rec ctx1 (title tg) ob ys cs = Inr (ctx2, ob2, ys2)
      \<and> end_tag env ctx2 (title tg) None ob2 = Inr (ctx', par, ch)
      \<and> ys' = ys2 @ [ch]"
  using assms by (auto simp add: parse_root_def bind_result_def split: sum.splits prod.splits)

lemma end_tag_root_Tileset:
  "end_tag env ctx ''Tileset'' None ob = Inr (ctx, None, ob)"
  by (simp add: end_tag_def)

lemma parse_root_tileset:
  assumes tt: "title tg = ''Tileset''" and ns: "\<not> truthy_str (get d ''source'')"
    and ok: "parse_root env rec ctx ys (Element tg d tx cs) = Inr (ctx', ys')"
  shows "\<exists>ts f0. ys' \<noteq> [] \<and> last ys' = OTileset ts
     \<and> get_def (int_of_str (env_lib env)) d ''firstgid'' 0 = Inr f0
     \<and> ts_firstgid ts =
         (if f0 \<noteq> 0 then f0
          else if list_ex (\<lambda>c. title (xml_tag c) = ''Tile'') cs then ctx_firstgid ctx else 0)"
proof -
  from parse_root_InrE [OF ok] obtain ctx1 ob ctx2 ob2 ys2 par ch where
    s: "start env rec ctx ''Tileset'' d tx = Inr (ctx1, ob)"
    and c: "parse_children env rec ctx1 ''Tileset'' ob ys cs = Inr (ctx2, ob2, ys2)"
    and e: "end_tag env ctx2 ''Tileset'' None ob2 = Inr (ctx', par, ch)"
    and y: "ys' = ys2 @ [ch]"
    unfolding tt by blast
  from start_Tileset_inline [OF ns s] obtain f0 ts0 where
    f0: "get_def (int_of_str (env_lib env)) d ''firstgid'' 0 = Inr f0"
    and ob: "ob = OTileset ts0" and t0: "ts_firstgid ts0 = f0"
    and g1: "ctx_firstgid ctx1 = (if f0 \<noteq> 0 then f0 else ctx_firstgid ctx)"
    by blast
  from tileset_children_firstgid [OF c [unfolded ob]] obtain ts' where
    ob2: "ob2 = OTileset ts'"
    and f': "ts_firstgid ts' =
         (if ts_firstgid ts0 = 0 \<and> list_ex (\<lambda>c. title (xml_tag c) = ''Tile'') cs then ctx_firstgid ctx1
          else ts_firstgid ts0)"
    by blast
  have ch: "ch = ob2" using e by (simp add: end_tag_root_Tileset)
  have "ts_firstgid ts' =
         (if f0 \<noteq> 0 then f0
          else if list_ex (\<lambda>c. title (xml_tag c) = ''Tile'') cs then ctx_firstgid ctx else 0)"
    using f' t0 g1 by (auto split: if_splits)
  then show ?thesis using y ch ob2 f0 by simp
qed

lemma parse_root_tileset_similar:
  assumes tt: "title tg = ''Tileset''" and ns: "\<not> truthy_str (get d ''source'')"
    and A: "parse_root env recA ctxA ysA (Element tg d tx cs) = Inr (ctxA', ysA')"
    and B: "parse_root env recB ctxB ysB (Element tg d tx cs) = Inr (ctxB', ysB')"
  shows "similar (last ysA') (last ysB')"
proof -
  from parse_root_InrE [OF A] obtain ctxA1 obA ctxA2 obA2 ysA2 parA chA where
    sA: "start env recA ctxA ''Tileset'' d tx = Inr (ctxA1, obA)"
    and cA: "parse_children env recA ctxA1 ''Tileset'' obA ysA cs = Inr (ctxA2, obA2, ysA2)"
    and eA: "end_tag env ctxA2 ''Tileset'' None obA2 = Inr (ctxA', parA, chA)"
    and yA: "ysA' = ysA2 @ [chA]"
    unfolding tt by blast
  from parse_root_InrE [OF B] obtain ctxB1 obB ctxB2 obB2 ysB2 parB chB where
    sB: "start env recB ctxB ''Tileset'' d tx = Inr (ctxB1, obB)"
    and cB: "parse_children env recB ctxB1 ''Tileset'' obB ysB cs = Inr (ctxB2, obB2, ysB2)"
    and eB: "end_tag env ctxB2 ''Tileset'' None obB2 = Inr (ctxB', parB, chB)"
    and yB: "ysB' = ysB2 @ [chB]"
    unfolding tt by blast
  have "obA = obB" using ns sA sB by (rule start_Tileset_inline_indep)
  then have "similar obA obB" by (simp add: similar_refl)
  with below_tileset_Tileset cA cB have "similar obA2 obB2" by (rule parse_children_similar)
  moreover have "chA = obA2" using eA by (simp add: end_tag_root_Tileset)
  moreover have "chB = obB2" using eB by (simp add: end_tag_root_Tileset)
  ultimately show ?thesis using yA yB by simp
qed

lemma start_Tileset_source:
  assumes "get d ''source'' = Some source" and "source \<noteq> []"
    and "get_opt (int_of_str (env_lib env)) d ''firstgid'' = Inr (Some g)" and "g \<noteq> 0"
    and "start env rec ctx ''Tileset'' d tx = Inr (ctx', ob)"
  shows "\<exists>objs. rec (ctx \<lparr> ctx_firstgid := g \<rparr>) (path_join env (ctx_folder ctx) source) = Inr (ctx', objs)
     \<and> objs \<noteq> [] \<and> ob = last objs"
  using assms
  by (auto simp add: start_def start_Tileset_def Let_def bind_result_def truthy_str_def
      split: sum.splits prod.splits if_splits)

text \<open>
  Claim C3, amended.  Let a \<^verbatim>\<open>Tileset\<close> start tag carry a non-empty \<^verbatim>\<open>source\<close> and
  a first gid \<open>g\<close> other than zero, and let the file at the source, resolved against the
  folder of the context, be a document whose root is a tileset tag without a source.  When
  the builder returns, its object is the tileset that \<open>iter_tmx\<close> yields last for that
  file, parsed in the same context with \<open>g\<close> as the pending first gid.  If the root tag
  of the file declares a first gid other than zero, the tileset keeps that value; if it
  declares none (or zero) and the root has a \<^verbatim>\<open>tile\<close> child, the first gid of the
  tileset is \<open>g\<close>.  Every other field equals the field of the tileset that
  \<open>load_tmx\<close> returns for the file on its own, with any image loader.
\<close>

theorem external_tileset_firstgid:
  assumes src: "get d ''source'' = Some source" "source \<noteq> []"
    and fg: "get_opt (int_of_str (env_lib env)) d ''firstgid'' = Inr (Some g)" "g \<noteq> 0"
    and doc: "iterparse env (path_join env (ctx_folder ctx) source)
                 = Inr (events_of (Element tg' d' tx' cs))"
    and root: "title tg' = ''Tileset''" "\<not> truthy_str (get d' ''source'')"
    and ok: "start env (iter_tmx (Suc n) env) ctx ''Tileset'' d tx = Inr (ctx', ob)"
  shows "\<exists>ts objs f0.
      iter_tmx (Suc n) env (ctx \<lparr> ctx_firstgid := g \<rparr>) (path_join env (ctx_folder ctx) source)
        = Inr (ctx', objs)
      \<and> objs \<noteq> [] \<and> ob = last objs \<and> ob = OTileset ts
      \<and> get_def (int_of_str (env_lib env)) d' ''firstgid'' 0 = Inr f0
      \<and> (f0 \<noteq> 0 \<longrightarrow> ts_firstgid ts = f0)
      \<and> (f0 = 0 \<and> list_ex (\<lambda>c. title (xml_tag c) = ''Tile'') cs \<longrightarrow> ts_firstgid ts = g)
      \<and> (\<forall>m image_loader ob0.
            load_tmx m env (path_join env (ctx_folder ctx) source) image_loader = Inr ob0 \<longrightarrow>
            (\<exists>ts0. ob0 = OTileset ts0 \<and> ts0 \<lparr> ts_firstgid := ts_firstgid ts \<rparr> = ts))"
proof -
  let ?path = "path_join env (ctx_folder ctx) source"
  let ?t = "Element tg' d' tx' cs"
  from start_Tileset_source [OF src fg ok] obtain objs where
    it: "iter_tmx (Suc n) env (ctx \<lparr> ctx_firstgid := g \<rparr>) ?path = Inr (ctx', objs)"
    and ne: "objs \<noteq> []" and ob: "ob = last objs"
    by blast
  have pr: "parse_root env (iter_tmx n env) (ctx \<lparr> ctx_firstgid := g \<rparr>) [] ?t = Inr (ctx', objs)"
    using it by (simp only: iter_tmx_tree [OF doc])
  from parse_root_tileset [OF root pr] obtain ts f0 where
    l: "last objs = OTileset ts"
    and f0: "get_def (int_of_str (env_lib env)) d' ''firstgid'' 0 = Inr f0"
    and f: "ts_firstgid ts =
         (if f0 \<noteq> 0 then f0
          else if list_ex (\<lambda>c. title (xml_tag c) = ''Tile'') cs then g else 0)"
    by auto
  have alone: "\<exists>ts0. ob0 = OTileset ts0 \<and> ts0 \<lparr> ts_firstgid := ts_firstgid ts \<rparr> = ts"
    if ld: "load_tmx m env ?path image_loader = Inr ob0" for m image_loader ob0
  proof (cases m)
    case 0
    with ld show ?thesis by (simp add: load_tmx_def out_of_fuel_def)
  next
    case (Suc k)
    let ?c0 = "\<lparr> ctx_path = ?path, ctx_folder = path_dirname env ?path,
                 ctx_image_loader = image_loader, ctx_invert_y = True,
                 ctx_tiles = [(0, None)], ctx_firstgid = 0 \<rparr>"
    from ld obtain c0' objs0 where
      i0: "iter_tmx (Suc k) env ?c0 ?path = Inr (c0', objs0)" and o0: "ob0 = last objs0"
      unfolding Suc load_tmx_def Let_def
      by (auto simp add: bind_result_def split: sum.splits prod.splits if_splits)
    have p0: "parse_root env (iter_tmx k env) ?c0 [] ?t = Inr (c0', objs0)"
      using i0 by (simp only: iter_tmx_tree [OF doc])
    from parse_root_tileset_similar [OF root pr p0] have "similar (last objs) ob0"
      using o0 by simp
    then obtain ts0 where "ob0 = OTileset ts0" "ts \<lparr> ts_firstgid := 0 \<rparr> = ts0 \<lparr> ts_firstgid := 0 \<rparr>"
      unfolding l similar_Tileset by blast
    then show ?thesis
      by (auto simp add: tileset_eq_but_firstgid intro!: tileset.equality)
  qed
  show ?thesis
    using it ne ob l f0 f alone by auto
qed

text \<open>
  The theorem at the tag \<^verbatim>\<open><tileset firstgid="5" source="shared.tsx"/>\<close>, for a file
  \<^verbatim>\<open>shared.tsx\<close> with one tile and no first gid of its own.
\<close>

lemmas eval_defs =
  start_def start_Tileset_def start_Tile_def get_def get_opt_def get_def_def bind_result_def
  sample_env_def sample_lib_def sample_float_def sample_ctx_def digit_val_def
  end_tag_def end_Tileset_Tile_def need_int_def truthy_str_def
  shared_tsx_def shared_files_def shared_tileset_def shared_tile_def reference_tag_def
  no_files_def Let_def load_tmx_def

lemma title_tileset_tile: "title ''tileset'' = ''Tileset''" "title ''tile'' = ''Tile''"
  by code_simp+

lemma shared_reference_eval:
  "start (sample_env (shared_files [])) (iter_tmx (Suc 0) (sample_env (shared_files []))) sample_ctx
      ''Tileset'' reference_tag None
   = Inr (sample_ctx \<lparr> ctx_tiles := [(0, None), (5, Some shared_tile)], ctx_firstgid := 5 \<rparr>,
          OTileset (shared_tileset 5))"
  by (simp add: eval_defs title_tileset_tile)

lemma shared_standalone_eval:
  "load_tmx (Suc 0) (sample_env (shared_files [])) ''shared.tsx'' default_image_loader
   = Inr (OTileset (shared_tileset 0))"
  by (simp add: eval_defs title_tileset_tile)

lemma some_tileset_firstgid:
  assumes "\<exists>ts objs f0. A objs \<and> B objs \<and> C objs \<and> OTileset t = OTileset ts \<and> G = Inr f0
      \<and> H ts f0 \<and> (f0 = 0 \<and> L \<longrightarrow> ts_firstgid ts = g) \<and> R ts"
    and "G = Inr (0::int)" and "L"
  shows "ts_firstgid t = g"
  using assms by auto

theorem external_tileset_firstgid_witness:
  "get reference_tag ''source'' = Some ''shared.tsx''
   \<and> get_opt (int_of_str (env_lib (sample_env (shared_files [])))) reference_tag ''firstgid''
       = Inr (Some 5)
   \<and> iterparse (sample_env (shared_files []))
         (path_join (sample_env (shared_files [])) (ctx_folder sample_ctx) ''shared.tsx'')
       = Inr (events_of (shared_tsx []))
   \<and> title ''tileset'' = ''Tileset''
   \<and> start (sample_env (shared_files [])) (iter_tmx (Suc 0) (sample_env (shared_files [])))
         sample_ctx ''Tileset'' reference_tag None
       = Inr (sample_ctx \<lparr> ctx_tiles := [(0, None), (5, Some shared_tile)], ctx_firstgid := 5 \<rparr>,
              OTileset (shared_tileset 5))
   \<and> ts_firstgid (shared_tileset 5 :: (string \<times> rect option \<times> tileflags option) tileset) = 5
   \<and> load_tmx (Suc 0) (sample_env (shared_files [])) ''shared.tsx'' default_image_loader
       = Inr (OTileset (shared_tileset 0))"
proof -
  let ?E = "sample_env (shared_files [])"
  let ?d' = "[] @ [(''name'', ''shared''), (''tilewidth'', ''32''), (''tileheight'', ''32'')]"
  let ?cs = "[Element ''tile'' [(''id'', ''0'')] None []]"
  have h1: "get reference_tag ''source'' = Some ''shared.tsx''"
    by (simp add: get_def reference_tag_def)
  have h2: "''shared.tsx'' \<noteq> []" by simp
  have h3: "get_opt (int_of_str (env_lib ?E)) reference_tag ''firstgid'' = Inr (Some 5)"
    by (simp add: eval_defs)
  have h4: "(5::int) \<noteq> 0" by simp
  have h5: "iterparse ?E (path_join ?E (ctx_folder sample_ctx) ''shared.tsx'')
       = Inr (events_of (Element ''tileset'' ?d' None ?cs))"
    by (simp add: sample_env_def sample_ctx_def shared_files_def shared_tsx_def)
  have h6: "title ''tileset'' = ''Tileset''" by (rule title_tileset_tile)
  have h7: "\<not> truthy_str (get ?d' ''source'')" by (simp add: truthy_str_def get_def)
  note h8 = shared_reference_eval
  have g0: "get_def (int_of_str (env_lib ?E)) ?d' ''firstgid'' 0 = Inr 0"
    by (simp add: get_def_def)
  have tl: "list_ex (\<lambda>c. title (xml_tag c) = ''Tile'') ?cs" by (simp add: title_tileset_tile)
  have c: "ts_firstgid (shared_tileset 5 :: (string \<times> rect option \<times> tileflags option) tileset) = 5"
    by (rule some_tileset_firstgid [OF external_tileset_firstgid [OF h1 h2 h3 h4 h5 h6 h7 h8] g0 tl])
  have h5': "iterparse ?E (path_join ?E (ctx_folder sample_ctx) ''shared.tsx'')
       = Inr (events_of (shared_tsx []))"
    using h5 by (simp add: shared_tsx_def)
  show ?thesis
    using h1 h3 h5' h6 h8 c shared_standalone_eval by simp
qed

text \<open>
  Claim C3 as stated fails when the external file declares a first gid: with
  \<^verbatim>\<open>firstgid="7"\<close> on the root tag of \<^verbatim>\<open>shared.tsx\<close>, the tag with
  \<^verbatim>\<open>firstgid="5"\<close> yields a tileset whose first gid is 7.
\<close>

theorem external_tileset_firstgid_counterexample:
  "start (sample_env (shared_files [(''firstgid'', ''7'')]))
      (iter_tmx (Suc 0) (sample_env (shared_files [(''firstgid'', ''7'')]))) sample_ctx
      ''Tileset'' reference_tag None
   = Inr (sample_ctx \<lparr> ctx_tiles := [(0, None), (7, Some shared_tile)], ctx_firstgid := 7 \<rparr>,
          OTileset (shared_tileset 7))
   \<and> get reference_tag ''firstgid'' = Some ''5''"
  by (simp add: eval_defs title_tileset_tile)

section \<open>The viewer stops on a close event and on every key\<close>

lemma handle_event_not_running: "\<not> running s \<Longrightarrow> \<not> running (handle_event s e)"
  by (cases e) auto

lemma handle_input_not_running: "\<not> running s \<Longrightarrow> \<not> running (handle_input s queue)"
  unfolding handle_input_def
  by (induction queue arbitrary: s) (auto simp add: handle_event_not_running)

lemma handle_event_stops: "stops_loop e \<Longrightarrow> \<not> running (handle_event s e)"
  by (cases e) (auto simp add: stops_loop_def)

lemma handle_input_stops:
  "list_ex stops_loop queue \<Longrightarrow> \<not> running (handle_input s queue)"
proof (induction queue arbitrary: s)
  case Nil
  then show ?case by simp
next
  case (Cons e queue)
  show ?case
  proof (cases "stops_loop e")
    case True
    then have "\<not> running (handle_event s e)" by (rule handle_event_stops)
    then have "\<not> running (handle_input (handle_event s e) queue)"
      by (rule handle_input_not_running)
    then show ?thesis by (simp add: handle_input_def)
  next
    case False
    with Cons.prems have "list_ex stops_loop queue" by simp
    then have "\<not> running (handle_input (handle_event s e) queue)" by (rule Cons.IH)
    then show ?thesis by (simp add: handle_input_def)
  qed
qed

lemma handle_input_resize_only:
  "list_all (\<lambda>e. e = VIDEORESIZE) queue \<Longrightarrow> running (handle_input s queue) = running s"
  unfolding handle_input_def
  by (induction queue arbitrary: s) auto

text \<open>
  Claim C9.  When the drained queue holds a window-close event or a key press (the escape
  key or any other key), \<open>running\<close> is false after \<open>handle_input\<close>, and the loop of
  \<open>run\<close> stops at that frame, leaving the later queues unread.  A queue of resize events
  only leaves \<open>running\<close> as it was, so the loop goes on to the next frame.
\<close>

theorem handle_input_stops_run_loop:
  "(list_ex stops_loop queue \<longrightarrow>
      \<not> running (handle_input s queue)
      \<and> run s (queue # rest) = Some (handle_input (s\<lparr>dirty := True, running := True\<rparr>) queue, rest))
   \<and> (list_all (\<lambda>e. e = VIDEORESIZE) queue \<longrightarrow>
      running (handle_input s queue) = running s
      \<and> run s (queue # rest) = run_loop (handle_input (s\<lparr>dirty := True, running := True\<rparr>) queue) rest
      \<and> running (handle_input (s\<lparr>dirty := True, running := True\<rparr>) queue))"
proof (intro conjI impI)
  assume q: "list_ex stops_loop queue"
  show "\<not> running (handle_input s queue)" using q by (rule handle_input_stops)
  have "\<not> running (handle_input (s\<lparr>dirty := True, running := True\<rparr>) queue)"
    using q by (rule handle_input_stops)
  then show "run s (queue # rest)
      = Some (handle_input (s\<lparr>dirty := True, running := True\<rparr>) queue, rest)"
    unfolding run_def
    by (subst run_loop.simps, simp, subst run_loop.simps, simp)
next
  assume r: "list_all (\<lambda>e. e = VIDEORESIZE) queue"
  show "running (handle_input s queue) = running s"
    using r by (rule handle_input_resize_only)
  show "run s (queue # rest)
      = run_loop (handle_input (s\<lparr>dirty := True, running := True\<rparr>) queue) rest"
    unfolding run_def by (subst run_loop.simps) simp
  show "running (handle_input (s\<lparr>dirty := True, running := True\<rparr>) queue)"
    using handle_input_resize_only [OF r] by simp
qed

text \<open>
  The theorem at a queue holding a resize and then the key \<open>a\<close> (code 97), and at a
  queue holding two resize events.
\<close>

theorem handle_input_stops_run_loop_witness:
  "list_ex stops_loop [VIDEORESIZE, KEYDOWN 97]
   \<and> \<not> running (handle_input \<lparr>running = True, dirty = False\<rparr> [VIDEORESIZE, KEYDOWN 97])
   \<and> run \<lparr>running = False, dirty = False\<rparr> [[VIDEORESIZE, KEYDOWN 97], [QUIT]]
       = Some (\<lparr>running = False, dirty = True\<rparr>, [[QUIT]])
   \<and> list_all (\<lambda>e. e = VIDEORESIZE) [VIDEORESIZE, VIDEORESIZE]
   \<and> running (handle_input \<lparr>running = True, dirty = False\<rparr> [VIDEORESIZE, VIDEORESIZE])"
proof -
  have a: "list_ex stops_loop [VIDEORESIZE, KEYDOWN 97]"
    by (simp add: stops_loop_def)
  have b: "list_all (\<lambda>e. e = VIDEORESIZE) [VIDEORESIZE, VIDEORESIZE]" by simp
  show ?thesis
    using a b
      handle_input_stops_run_loop
        [of "[VIDEORESIZE, KEYDOWN 97]" "\<lparr>running = True, dirty = False\<rparr>" "[[QUIT]]"]
      handle_input_stops_run_loop
        [of "[VIDEORESIZE, KEYDOWN 97]" "\<lparr>running = False, dirty = False\<rparr>" "[[QUIT]]"]
      handle_input_stops_run_loop
        [of "[VIDEORESIZE, VIDEORESIZE]" "\<lparr>running = True, dirty = False\<rparr>" "[]"]
    by (simp add: handle_input_def K_ESCAPE_def)
qed

end
